theory Spec2Isabelle
  imports Main "HOL-Library.Word"
begin

section \<open>Go values used by the package\<close>

text \<open>
  The package \<^verbatim>\<open>lightwork\<close> is modelled function by function. Go's \<^verbatim>\<open>int\<close> and
  \<^verbatim>\<open>int64\<close> are 64-bit words (the 64-bit targets of Go), read as signed numbers by
  \<open>sint\<close>; \<^verbatim>\<open>string\<close> and \<^verbatim>\<open>[]byte\<close> are lists of \<open>char\<close> (a \<open>char\<close> is a byte).
\<close>

type_synonym go_int = "64 word"
type_synonym int64 = "64 word"

text \<open>
  An \<^verbatim>\<open>error\<close> value. \<open>EOF\<close> is the sentinel \<^verbatim>\<open>io.EOF\<close>; \<open>ErrorString\<close> is what
  \<^verbatim>\<open>errors.New\<close> and \<^verbatim>\<open>fmt.Errorf\<close> without \<^verbatim>\<open>%w\<close> build; \<open>WrapError msg e\<close> is what
  \<^verbatim>\<open>fmt.Errorf\<close> with a \<^verbatim>\<open>%w\<close> verb builds: its text is \<open>msg\<close> and it unwraps to \<open>e\<close>.
  A nil error is \<open>None\<close> of \<open>go_error option\<close>.
\<close>

datatype go_error = EOF | ErrorString string | WrapError string go_error

fun Error_text :: "go_error \<Rightarrow> string" where
  "Error_text EOF = ''EOF''"
| "Error_text (ErrorString s) = s"
| "Error_text (WrapError s e) = s"

fun Unwrap :: "go_error \<Rightarrow> go_error option" where
  "Unwrap (WrapError s e) = Some e"
| "Unwrap e = None"

text \<open>The operands (\<^verbatim>\<open>interface{}\<close> values) that the package hands to a formatter.\<close>

datatype go_value = V_string string | V_error go_error

text \<open>
  The parts of the Go runtime and standard library whose results the package only passes
  on: \<^verbatim>\<open>fmt.Sprintf\<close>, the text that \<^verbatim>\<open>runtime.Stack\<close> has for the calling goroutine,
  and the capacity that \<^verbatim>\<open>append\<close> picks when it has to allocate (given the old capacity
  and the length needed). Every function that uses one of them takes this record.
\<close>

record go_env =
  fmt_Sprintf :: "string \<Rightarrow> go_value list \<Rightarrow> string"
  runtime_stack_text :: string
  runtime_growslice :: "nat \<Rightarrow> nat \<Rightarrow> nat"

text \<open>
  \<^verbatim>\<open>runtime.Stack(buf, false)\<close> writes the stack text into \<open>buf\<close>, cut to the length of
  \<open>buf\<close>, and returns the number of bytes written together with the buffer.
\<close>

definition runtime_Stack :: "go_env \<Rightarrow> string \<Rightarrow> nat \<times> string" where
  "runtime_Stack go buf =
     (let n = min (length buf) (length (runtime_stack_text go))
      in (n, take n (runtime_stack_text go) @ drop n buf))"

text \<open>
  \<^verbatim>\<open>fmt.Sprintf\<close> on the formats whose only verb is \<^verbatim>\<open>%v\<close> (the only formats of
  this package), with no operand left over: a string operand is printed as it is, an
  error operand by its \<^verbatim>\<open>Error()\<close> text, and a verb without an operand as
  \<^verbatim>\<open>%!v(MISSING)\<close>. It is the \<open>fmt_Sprintf\<close> of the concrete runs below; the properties
  are proved for every \<open>fmt_Sprintf\<close>.
\<close>

fun render_v :: "go_value \<Rightarrow> string" where
  "render_v (V_string s) = s"
| "render_v (V_error e) = Error_text e"

fun Sprintf_v :: "string \<Rightarrow> go_value list \<Rightarrow> string" where
  "Sprintf_v [] vs = []"
| "Sprintf_v [c] vs = [c]"
| "Sprintf_v (c # d # cs) vs =
     (if c = CHR ''%'' \<and> d = CHR ''v''
      then (case vs of [] \<Rightarrow> ''%!v(MISSING)'' @ Sprintf_v cs []
            | v # vs' \<Rightarrow> render_v v @ Sprintf_v cs vs')
      else c # Sprintf_v (d # cs) vs)"

definition go_default :: go_env where
  "go_default = \<lparr>fmt_Sprintf = Sprintf_v, runtime_stack_text = ''goroutine 1 [running]:'',
     runtime_growslice = (\<lambda>oldcap needed. 2 * needed)\<rparr>"

section \<open>RequestLogger\<close>

text \<open>
  The interface \<^verbatim>\<open>RequestLoggerBase\<close> is implemented outside the package. A sink is
  modelled by what the package can observe of it: the result of its \<^verbatim>\<open>FormatLog\<close> and
  the sequence of calls made on it, in order. A call on a sink returns (a sink that
  panics or stops the process ends the request where it does so).
\<close>

datatype sink_call =
    Call_Info string
  | Call_Warning string
  | Call_Error string
  | Call_WTF string
  | Call_FormatLog string "go_value list"
  | Call_WriteLogs

record RequestLoggerBase =
  FormatLog_result :: "string \<Rightarrow> go_value list \<Rightarrow> string"
  sink_calls :: "sink_call list"

definition base_Info :: "string \<Rightarrow> RequestLoggerBase \<Rightarrow> RequestLoggerBase" where
  "base_Info msg s = s\<lparr>sink_calls := sink_calls s @ [Call_Info msg]\<rparr>"

definition base_Warning :: "string \<Rightarrow> RequestLoggerBase \<Rightarrow> RequestLoggerBase" where
  "base_Warning msg s = s\<lparr>sink_calls := sink_calls s @ [Call_Warning msg]\<rparr>"

definition base_Error :: "string \<Rightarrow> RequestLoggerBase \<Rightarrow> RequestLoggerBase" where
  "base_Error msg s = s\<lparr>sink_calls := sink_calls s @ [Call_Error msg]\<rparr>"

definition base_WTF :: "string \<Rightarrow> RequestLoggerBase \<Rightarrow> RequestLoggerBase" where
  "base_WTF msg s = s\<lparr>sink_calls := sink_calls s @ [Call_WTF msg]\<rparr>"

definition base_FormatLog ::
  "string \<Rightarrow> go_value list \<Rightarrow> RequestLoggerBase \<Rightarrow> string \<times> RequestLoggerBase" where
  "base_FormatLog format values s =
     (FormatLog_result s format values,
      s\<lparr>sink_calls := sink_calls s @ [Call_FormatLog format values]\<rparr>)"

definition base_WriteLogs :: "RequestLoggerBase \<Rightarrow> RequestLoggerBase" where
  "base_WriteLogs s = s\<lparr>sink_calls := sink_calls s @ [Call_WriteLogs]\<rparr>"

text \<open>\<^verbatim>\<open>type RequestLogger struct { b RequestLoggerBase }\<close>\<close>

record RequestLogger =
  rl_b :: RequestLoggerBase

definition RequestLogger_Info :: "RequestLogger \<Rightarrow> string \<Rightarrow> RequestLogger" where
  "RequestLogger_Info rl msg = rl\<lparr>rl_b := base_Info msg (rl_b rl)\<rparr>"

definition RequestLogger_Infof ::
  "go_env \<Rightarrow> RequestLogger \<Rightarrow> string \<Rightarrow> go_value list \<Rightarrow> RequestLogger" where
  "RequestLogger_Infof go rl format values =
     RequestLogger_Info rl (fmt_Sprintf go format values)"

definition RequestLogger_Warning :: "RequestLogger \<Rightarrow> string \<Rightarrow> RequestLogger" where
  "RequestLogger_Warning rl msg = rl\<lparr>rl_b := base_Warning msg (rl_b rl)\<rparr>"

definition RequestLogger_Warningf ::
  "go_env \<Rightarrow> RequestLogger \<Rightarrow> string \<Rightarrow> go_value list \<Rightarrow> RequestLogger" where
  "RequestLogger_Warningf go rl format values =
     RequestLogger_Warning rl (fmt_Sprintf go format values)"

definition RequestLogger_Error :: "RequestLogger \<Rightarrow> string \<Rightarrow> RequestLogger" where
  "RequestLogger_Error rl msg = rl\<lparr>rl_b := base_Error msg (rl_b rl)\<rparr>"

definition RequestLogger_Errorf ::
  "go_env \<Rightarrow> RequestLogger \<Rightarrow> string \<Rightarrow> go_value list \<Rightarrow> RequestLogger" where
  "RequestLogger_Errorf go rl format values =
     RequestLogger_Error rl (fmt_Sprintf go format values)"

text \<open>
  \<^verbatim>\<open>WTF\<close>: the message, then \<^verbatim>\<open>stBuf := make([]byte, 100000)\<close>,
  \<^verbatim>\<open>n := runtime.Stack(stBuf, false)\<close> and a second \<^verbatim>\<open>WTF\<close> of the sink with
  \<^verbatim>\<open>"Stack Trace:\n" + string(stBuf[:n])\<close>.
\<close>

definition RequestLogger_WTF :: "go_env \<Rightarrow> RequestLogger \<Rightarrow> string \<Rightarrow> RequestLogger" where
  "RequestLogger_WTF go rl msg =
     (let rl1 = rl\<lparr>rl_b := base_WTF msg (rl_b rl)\<rparr>;
          stBuf = replicate 100000 (CHR 0x00);
          (n, stBuf') = runtime_Stack go stBuf
      in rl1\<lparr>rl_b := base_WTF (''Stack Trace:'' @ [CHR 0x0A] @ take n stBuf') (rl_b rl1)\<rparr>)"

definition RequestLogger_WTFf ::
  "go_env \<Rightarrow> RequestLogger \<Rightarrow> string \<Rightarrow> go_value list \<Rightarrow> RequestLogger" where
  "RequestLogger_WTFf go rl format values =
     RequestLogger_WTF go rl (fmt_Sprintf go format values)"

section \<open>The response writer and its tracker\<close>

text \<open>
  \<^verbatim>\<open>http.Header\<close> is \<^verbatim>\<open>map[string][]string\<close>. \<^verbatim>\<open>Get\<close> and \<^verbatim>\<open>Set\<close> first bring the
  key to its canonical form; the keys this package passes (\<^verbatim>\<open>Content-Type\<close>,
  \<^verbatim>\<open>Content-Length\<close>) are canonical already, so the model looks the key up as given.
  \<^verbatim>\<open>Get\<close> returns the first value of the key, and \<^verbatim>\<open>""\<close> when the key has no value.
\<close>

type_synonym http_Header = "string \<Rightarrow> string list option"

definition Header_Get :: "http_Header \<Rightarrow> string \<Rightarrow> string" where
  "Header_Get h key = (case h key of None \<Rightarrow> [] | Some [] \<Rightarrow> [] | Some (v # vs) \<Rightarrow> v)"

definition Header_Set :: "http_Header \<Rightarrow> string \<Rightarrow> string \<Rightarrow> http_Header" where
  "Header_Set h key val = h(key \<mapsto> [val])"

text \<open>
  The \<^verbatim>\<open>http.ResponseWriter\<close> that the transport hands to the package: its header map,
  the calls it has received, and the result its \<^verbatim>\<open>Write\<close> gives (a function of the
  header, of the calls so far and of the bytes).
\<close>

datatype rw_call = Call_WriteHeader go_int | Call_Write string

record http_ResponseWriter =
  rw_header :: http_Header
  rw_calls :: "rw_call list"
  rw_Write_result :: "http_Header \<Rightarrow> rw_call list \<Rightarrow> string \<Rightarrow> go_int \<times> go_error option"

definition raw_Write :: "string \<Rightarrow> http_ResponseWriter \<Rightarrow> (go_int \<times> go_error option) \<times> http_ResponseWriter" where
  "raw_Write bs w =
     (rw_Write_result w (rw_header w) (rw_calls w) bs, w\<lparr>rw_calls := rw_calls w @ [Call_Write bs]\<rparr>)"

definition raw_WriteHeader :: "go_int \<Rightarrow> http_ResponseWriter \<Rightarrow> http_ResponseWriter" where
  "raw_WriteHeader code w = w\<lparr>rw_calls := rw_calls w @ [Call_WriteHeader code]\<rparr>"

text \<open>
  \<^verbatim>\<open>type loggingResponseWriter struct { rw http.ResponseWriter; statusCode int;
  contentLength int }\<close>
\<close>

record loggingResponseWriter =
  lrw_rw :: http_ResponseWriter
  statusCode :: go_int
  contentLength :: go_int

definition loggingResponseWriter_Header :: "loggingResponseWriter \<Rightarrow> http_Header" where
  "loggingResponseWriter_Header lrw = rw_header (lrw_rw lrw)"

definition loggingResponseWriter_Write ::
  "string \<Rightarrow> loggingResponseWriter \<Rightarrow> (go_int \<times> go_error option) \<times> loggingResponseWriter" where
  "loggingResponseWriter_Write bs lrw =
     (let ((n, err), w) = raw_Write bs (lrw_rw lrw)
      in ((n, err), lrw\<lparr>lrw_rw := w, contentLength := contentLength lrw + n\<rparr>))"

definition loggingResponseWriter_WriteHeader :: "go_int \<Rightarrow> loggingResponseWriter \<Rightarrow> loggingResponseWriter" where
  "loggingResponseWriter_WriteHeader code lrw =
     (let lrw1 = lrw\<lparr>statusCode := code\<rparr>
      in lrw1\<lparr>lrw_rw := raw_WriteHeader code (lrw_rw lrw1)\<rparr>)"

text \<open>
  The calls a handler can make on the tracker, and a run of any sequence of them from
  the tracker that \<^verbatim>\<open>handlerShim\<close> builds (\<^verbatim>\<open>&loggingResponseWriter{rw: rw}\<close>: both
  counters zero). The run returns the results of the \<^verbatim>\<open>Write\<close> calls too.
\<close>

datatype lrw_op = Op_Write string | Op_WriteHeader go_int | Op_SetHeader string string

definition new_loggingResponseWriter :: "http_ResponseWriter \<Rightarrow> loggingResponseWriter" where
  "new_loggingResponseWriter w = \<lparr>lrw_rw = w, statusCode = 0, contentLength = 0\<rparr>"

fun lrw_step :: "lrw_op \<Rightarrow> loggingResponseWriter \<Rightarrow> (go_int \<times> go_error option) list \<times> loggingResponseWriter" where
  "lrw_step (Op_Write bs) lrw = (let (r, lrw') = loggingResponseWriter_Write bs lrw in ([r], lrw'))"
| "lrw_step (Op_WriteHeader code) lrw = ([], loggingResponseWriter_WriteHeader code lrw)"
| "lrw_step (Op_SetHeader k v) lrw =
     ([], lrw\<lparr>lrw_rw := (lrw_rw lrw)\<lparr>rw_header := Header_Set (loggingResponseWriter_Header lrw) k v\<rparr>\<rparr>)"

fun lrw_run :: "lrw_op list \<Rightarrow> loggingResponseWriter \<Rightarrow> (go_int \<times> go_error option) list \<times> loggingResponseWriter" where
  "lrw_run [] lrw = ([], lrw)"
| "lrw_run (x # xs) lrw =
     (let (rs, lrw1) = lrw_step x lrw; (rs', lrw2) = lrw_run xs lrw1 in (rs @ rs', lrw2))"

text \<open>The status codes of the \<^verbatim>\<open>WriteHeader\<close> calls in a sequence of calls, in order.\<close>

fun WriteHeader_codes :: "lrw_op list \<Rightarrow> go_int list" where
  "WriteHeader_codes [] = []"
| "WriteHeader_codes (Op_WriteHeader code # xs) = code # WriteHeader_codes xs"
| "WriteHeader_codes (x # xs) = WriteHeader_codes xs"

text \<open>The same sequence of calls made on the underlying writer itself.\<close>

fun raw_step :: "lrw_op \<Rightarrow> http_ResponseWriter \<Rightarrow> (go_int \<times> go_error option) list \<times> http_ResponseWriter" where
  "raw_step (Op_Write bs) w = (let (r, w') = raw_Write bs w in ([r], w'))"
| "raw_step (Op_WriteHeader code) w = ([], raw_WriteHeader code w)"
| "raw_step (Op_SetHeader k v) w = ([], w\<lparr>rw_header := Header_Set (rw_header w) k v\<rparr>)"

fun raw_run :: "lrw_op list \<Rightarrow> http_ResponseWriter \<Rightarrow> (go_int \<times> go_error option) list \<times> http_ResponseWriter" where
  "raw_run [] w = ([], w)"
| "raw_run (x # xs) w =
     (let (rs, w1) = raw_step x w; (rs', w2) = raw_run xs w1 in (rs @ rs', w2))"

section \<open>Context\<close>

text \<open>
  The per-request objects. A \<^verbatim>\<open>*Context\<close> and the objects it points to (the tracker,
  the logger) are owned by one request, so a handler is a function from the state of
  these objects to its returned error and their new state: a handler that returns. (A
  handler that panics or runs forever never reaches the code after it, and no property
  below speaks of what follows such a handler.) The \<^verbatim>\<open>server\<close> field (a
  pointer, read only by \<^verbatim>\<open>Struct\<close>, \<^verbatim>\<open>BodyStruct\<close> and \<^verbatim>\<open>ClientHost\<close>) is left out.
  \<open>Context_base\<close> is the context while its \<^verbatim>\<open>Log\<close> field is still nil: what
  \<^verbatim>\<open>NewRequestLogger\<close> is called with.
\<close>

record http_Request =
  Method :: string
  URL :: string
  Body :: string

record ContextRequest =
  cr_req :: http_Request
  cr_params :: "(string \<times> string) list"

record Context_base =
  SimpleCtx :: "(string \<times> go_value) list"
  Response_rw :: loggingResponseWriter
  Request :: ContextRequest
  escapeHatchUsed :: bool

record Context = Context_base +
  Log :: RequestLogger

type_synonym Handler = "Context \<Rightarrow> go_error option \<times> Context"

type_synonym Middleware = "Handler \<Rightarrow> Handler"

subsection \<open>ContextResponse\<close>

definition ContextResponse_Header :: "Context \<Rightarrow> http_Header" where
  "ContextResponse_Header c = loggingResponseWriter_Header (Response_rw c)"

text \<open>\<^verbatim>\<open>cr.Header().Set(key, value)\<close>: the header map is shared with the underlying writer.\<close>

definition ContextResponse_Header_Set :: "string \<Rightarrow> string \<Rightarrow> Context \<Rightarrow> Context" where
  "ContextResponse_Header_Set key val c =
     c\<lparr>Response_rw := (Response_rw c)\<lparr>lrw_rw :=
          (lrw_rw (Response_rw c))\<lparr>rw_header := Header_Set (ContextResponse_Header c) key val\<rparr>\<rparr>\<rparr>"

definition setHeaderIfNotAlreadySet :: "string \<Rightarrow> string \<Rightarrow> Context \<Rightarrow> Context" where
  "setHeaderIfNotAlreadySet key val c =
     (let header = ContextResponse_Header c;
          v = Header_Get header key
      in if v \<noteq> [] then c else ContextResponse_Header_Set key val c)"

definition rw_WriteHeader :: "go_int \<Rightarrow> Context \<Rightarrow> Context" where
  "rw_WriteHeader code c = c\<lparr>Response_rw := loggingResponseWriter_WriteHeader code (Response_rw c)\<rparr>"

definition rw_Write :: "string \<Rightarrow> Context \<Rightarrow> (go_int \<times> go_error option) \<times> Context" where
  "rw_Write bs c =
     (let (r, lrw) = loggingResponseWriter_Write bs (Response_rw c) in (r, c\<lparr>Response_rw := lrw\<rparr>))"

definition ContextResponse_Status :: "go_int \<Rightarrow> Context \<Rightarrow> go_error option \<times> Context" where
  "ContextResponse_Status code c =
     (None, rw_WriteHeader code (ContextResponse_Header_Set ''Content-Length'' ''0'' c))"

text \<open>\<^verbatim>\<open>strconv.Itoa\<close> and \<^verbatim>\<open>strconv.FormatInt(i, 10)\<close>: the decimal text of a signed integer.\<close>

fun decimal :: "nat \<Rightarrow> string" where
  "decimal n = (if n < 10 then [''0123456789'' ! n] else decimal (n div 10) @ [''0123456789'' ! (n mod 10)])"

declare decimal.simps [simp del]

definition strconv_FormatInt10 :: "int64 \<Rightarrow> string" where
  "strconv_FormatInt10 i = (if sint i < 0 then CHR ''-'' # decimal (nat (- sint i)) else decimal (nat (sint i)))"

definition strconv_Itoa :: "go_int \<Rightarrow> string" where
  "strconv_Itoa i = strconv_FormatInt10 i"

text \<open>\<^verbatim>\<open>len(body)\<close> as a Go \<^verbatim>\<open>int\<close>.\<close>

definition go_len :: "'a list \<Rightarrow> go_int" where
  "go_len xs = of_nat (length xs)"

definition ContextResponse_Bytes :: "go_int \<Rightarrow> string \<Rightarrow> Context \<Rightarrow> go_error option \<times> Context" where
  "ContextResponse_Bytes code body c =
     (let c1 = setHeaderIfNotAlreadySet ''Content-Type'' ''application/octet-stream'' c;
          c2 = ContextResponse_Header_Set ''Content-Length'' (strconv_Itoa (go_len body)) c1;
          c3 = rw_WriteHeader code c2;
          ((n, err), c4) = rw_Write body c3
      in case err of
           Some e \<Rightarrow> (Some (WrapError (''failed to write body: '' @ Error_text e) e), c4)
         | None \<Rightarrow> (None, c4))"

definition ContextResponse_String :: "go_int \<Rightarrow> string \<Rightarrow> Context \<Rightarrow> go_error option \<times> Context" where
  "ContextResponse_String code body c =
     ContextResponse_Bytes code body (setHeaderIfNotAlreadySet ''Content-Type'' ''text/plain'' c)"

definition ContextResponse_GetStatusCode :: "Context \<Rightarrow> go_int" where
  "ContextResponse_GetStatusCode c = statusCode (Response_rw c)"

subsection \<open>Streaming\<close>

text \<open>
  An \<^verbatim>\<open>io.ReadSeeker\<close> is implemented outside the package. It is modelled by the
  result its \<^verbatim>\<open>Seek\<close> gives (a function of the seeks made so far and of the arguments),
  the seeks it has received, and the results its next \<^verbatim>\<open>Read\<close> calls give (a function of
  the seeks made so far): each a chunk of bytes with an error, \<open>Some EOF\<close> at the end of
  the data. Once the listed results are used up, \<^verbatim>\<open>Read\<close> returns no bytes and
  \<^verbatim>\<open>io.EOF\<close>. \<open>rs_consumed\<close> counts the \<^verbatim>\<open>Read\<close> calls made.
\<close>

datatype whence = SeekStart | SeekCurrent | SeekEnd

record io_ReadSeeker =
  rs_Seek_result :: "(int64 \<times> whence) list \<Rightarrow> int64 \<Rightarrow> whence \<Rightarrow> int64 \<times> go_error option"
  rs_seeks :: "(int64 \<times> whence) list"
  rs_Read_results :: "(int64 \<times> whence) list \<Rightarrow> (string \<times> go_error option) list"
  rs_consumed :: nat

definition stream_Seek :: "int64 \<Rightarrow> whence \<Rightarrow> io_ReadSeeker \<Rightarrow> (int64 \<times> go_error option) \<times> io_ReadSeeker" where
  "stream_Seek offset wh s =
     (rs_Seek_result s (rs_seeks s) offset wh, s\<lparr>rs_seeks := rs_seeks s @ [(offset, wh)]\<rparr>)"

text \<open>
  \<^verbatim>\<open>io.Copy(dst, src)\<close> with the tracker as \<open>dst\<close>, as the loop of the standard library:
  read a chunk; write a chunk that is not empty; stop with the write's error, with
  \<^verbatim>\<open>errInvalidWrite\<close> or with \<^verbatim>\<open>io.ErrShortWrite\<close> when the write did not take the
  chunk; stop with nil at \<^verbatim>\<open>io.EOF\<close> and with the read's error otherwise. The list
  holds the results of the reads still to come; the result has the number of reads made.
  The reads of a source are a finite list, so the copy returns; a source that never ends,
  or one that copies itself through its own \<^verbatim>\<open>WriteTo\<close>, is not described.
\<close>

fun io_Copy_loop ::
  "(string \<times> go_error option) list \<Rightarrow> loggingResponseWriter \<Rightarrow> go_error option \<times> nat \<times> loggingResponseWriter" where
  "io_Copy_loop [] lrw = (None, 1, lrw)"
| "io_Copy_loop ((buf, er) # rest) lrw =
     (if buf \<noteq> [] then
        (let ((nw, ew), lrw1) = loggingResponseWriter_Write buf lrw;
             bad = (sint nw < 0 \<or> int (length buf) < sint nw);
             ew1 = (if bad \<and> ew = None then Some (ErrorString ''invalid write result'') else ew);
             nw1 = (if bad then 0 else sint nw)
         in case ew1 of
              Some e \<Rightarrow> (Some e, 1, lrw1)
            | None \<Rightarrow>
                if int (length buf) \<noteq> nw1 then (Some (ErrorString ''short write''), 1, lrw1)
                else (case er of
                        Some e \<Rightarrow> (if e = EOF then None else Some e, 1, lrw1)
                      | None \<Rightarrow> (let (r, k, lrw2) = io_Copy_loop rest lrw1 in (r, Suc k, lrw2))))
      else (case er of
              Some e \<Rightarrow> (if e = EOF then None else Some e, 1, lrw)
            | None \<Rightarrow> (let (r, k, lrw2) = io_Copy_loop rest lrw in (r, Suc k, lrw2))))"

definition io_Copy :: "loggingResponseWriter \<Rightarrow> io_ReadSeeker \<Rightarrow> go_error option \<times> io_ReadSeeker \<times> loggingResponseWriter" where
  "io_Copy lrw src =
     (let (r, k, lrw') = io_Copy_loop (drop (rs_consumed src) (rs_Read_results src (rs_seeks src))) lrw
      in (r, src\<lparr>rs_consumed := rs_consumed src + k\<rparr>, lrw'))"

definition ContextResponse_Stream ::
  "go_int \<Rightarrow> io_ReadSeeker \<Rightarrow> Context \<Rightarrow> go_error option \<times> io_ReadSeeker \<times> Context" where
  "ContextResponse_Stream code stream c =
     (let c1 = rw_WriteHeader code c;
          (err, stream', lrw) = io_Copy (Response_rw c1) stream
      in (err, stream', c1\<lparr>Response_rw := lrw\<rparr>))"

definition ContextResponse_StreamReadSeeker ::
  "go_env \<Rightarrow> go_int \<Rightarrow> io_ReadSeeker \<Rightarrow> Context \<Rightarrow> go_error option \<times> io_ReadSeeker \<times> Context" where
  "ContextResponse_StreamReadSeeker go code stream c =
     (let ((currentPos, err), stream1) = stream_Seek 0 SeekCurrent stream
      in case err of
           Some e \<Rightarrow>
             (let c1 = c\<lparr>Log := RequestLogger_Warningf go (Log c)
                          ''Unable to determine current stream position: %v'' [V_error e]\<rparr>;
                  c2 = c1\<lparr>Log := RequestLogger_Info (Log c1) ''Falling back to chunked streaming''\<rparr>
              in ContextResponse_Stream code stream1 c2)
         | None \<Rightarrow>
             (let ((totalStreamLen, err), stream2) = stream_Seek 0 SeekEnd stream1
              in case err of
                   Some e \<Rightarrow>
                     (let c1 = c\<lparr>Log := RequestLogger_Warningf go (Log c)
                                  ''Unable to determine total stream length: %v'' [V_error e]\<rparr>;
                          c2 = c1\<lparr>Log := RequestLogger_Info (Log c1) ''Falling back to chunked streaming''\<rparr>
                      in ContextResponse_Stream code stream2 c2)
                 | None \<Rightarrow>
                     (let ((_, err), stream3) = stream_Seek currentPos SeekStart stream2
                      in case err of
                           Some e \<Rightarrow>
                             (Some (ErrorString ''failed to safely determine stream length - aborting''),
                              stream3,
                              c\<lparr>Log := RequestLogger_Errorf go (Log c)
                                   ''Unable to restore stream position after reading length: %v'' [V_error e]\<rparr>)
                         | None \<Rightarrow>
                             ContextResponse_Stream code stream3
                               (ContextResponse_Header_Set ''Content-Length''
                                  (strconv_FormatInt10 (totalStreamLen - currentPos)) c))))"

section \<open>Middleware\<close>

text \<open>
  A classic \<^verbatim>\<open>http.Handler\<close> gets a response writer and a request. The writer it gets
  is a reference: to the tracker of the request or to some other writer (a classic
  middleware may hand its own wrapper to \<open>next\<close>). Its effect is on the per-request
  objects, so \<^verbatim>\<open>ServeHTTP\<close> is a function on their state.
\<close>

datatype ResponseWriter_ref = Tracker_ref | Other_ref nat

type_synonym http_Handler = "ResponseWriter_ref \<Rightarrow> http_Request \<Rightarrow> Context \<Rightarrow> Context"

definition ClassicHandlerShim :: "http_Handler \<Rightarrow> Handler" where
  "ClassicHandlerShim classicHandler = (\<lambda>c. (None, classicHandler Tracker_ref (cr_req (Request c)) c))"

definition ClassicMiddlewareShim :: "(http_Handler \<Rightarrow> http_Handler) \<Rightarrow> Middleware" where
  "ClassicMiddlewareShim classicMiddleware =
     (\<lambda>n. \<lambda>c.
        (let classicHandler = classicMiddleware (\<lambda>_ _ c'. snd (n c'))
         in ClassicHandlerShim classicHandler c))"

section \<open>HandlerGroup\<close>

text \<open>
  The registration state. A \<^verbatim>\<open>[]Middleware\<close> is a slice header (pointer, length,
  capacity) over a backing array, and two headers may share an array, so the arrays live
  in a store: \<open>arrays w ! p\<close> is the array at address \<open>p\<close>, all its cells up to the
  capacity, and a cell holds \<open>None\<close> for the nil function. A \<^verbatim>\<open>*HandlerGroup\<close> is an index
  into \<open>groups\<close>. A world holds one \<^verbatim>\<open>Server\<close>, which the \<^verbatim>\<open>s\<close> field of every group
  points to; its strategies other than \<^verbatim>\<open>NewRequestLogger\<close> are left out.
\<close>

record slice =
  slice_ptr :: nat
  slice_len :: nat
  slice_cap :: nat

record HandlerGroup =
  parent :: "nat option"
  middlewareList :: slice
  basePath :: string

record Server =
  NewRequestLogger :: "Context_base \<Rightarrow> RequestLoggerBase"

record World =
  server :: Server
  groups :: "HandlerGroup list"
  arrays :: "Middleware option list list"

datatype panic = Nil_function_call | Index_out_of_range

text \<open>
  The built-ins \<^verbatim>\<open>make\<close>, \<^verbatim>\<open>copy\<close>, \<^verbatim>\<open>append\<close> and indexing, on slices of the store.
  \<^verbatim>\<open>make\<close> puts its array at a new address (Go may give the arrays that have no cell
  one address; they have no cell to share). \<^verbatim>\<open>append\<close> writes into the array of its
  slice when the capacity allows, and otherwise into a new array of the capacity that the
  runtime picks, at least the length needed.
\<close>

definition slice_elems :: "World \<Rightarrow> slice \<Rightarrow> Middleware option list" where
  "slice_elems w s = take (slice_len s) (arrays w ! slice_ptr s)"

definition go_make :: "nat \<Rightarrow> World \<Rightarrow> slice \<times> World" where
  "go_make n w =
     (\<lparr>slice_ptr = length (arrays w), slice_len = n, slice_cap = n\<rparr>,
      w\<lparr>arrays := arrays w @ [replicate n None]\<rparr>)"

definition go_copy :: "slice \<Rightarrow> slice \<Rightarrow> World \<Rightarrow> nat \<times> World" where
  "go_copy dst src w =
     (let n = min (slice_len dst) (slice_len src)
      in (n, w\<lparr>arrays := (arrays w)[slice_ptr dst :=
                 take n (arrays w ! slice_ptr src) @ drop n (arrays w ! slice_ptr dst)]\<rparr>))"

definition go_append :: "go_env \<Rightarrow> slice \<Rightarrow> Middleware option list \<Rightarrow> World \<Rightarrow> slice \<times> World" where
  "go_append go s ms w =
     (let need = slice_len s + length ms
      in if need \<le> slice_cap s
         then (s\<lparr>slice_len := need\<rparr>,
               w\<lparr>arrays := (arrays w)[slice_ptr s :=
                    take (slice_len s) (arrays w ! slice_ptr s) @ ms @ drop need (arrays w ! slice_ptr s)]\<rparr>)
         else (let newcap = max need (runtime_growslice go (slice_cap s) need)
               in (\<lparr>slice_ptr = length (arrays w), slice_len = need, slice_cap = newcap\<rparr>,
                   w\<lparr>arrays := arrays w @ [slice_elems w s @ ms @ replicate (newcap - need) None]\<rparr>)))"

definition slice_index :: "World \<Rightarrow> slice \<Rightarrow> int \<Rightarrow> panic + Middleware option" where
  "slice_index w s i =
     (if 0 \<le> i \<and> i < int (slice_len s) then Inr (arrays w ! slice_ptr s ! nat i)
      else Inl Index_out_of_range)"

text \<open>
  \<^verbatim>\<open>middlewareHandler\<close>: \<^verbatim>\<open>for i := len(ml) - 1; i >= 0; i-- { fullHandler = ml[i](fullHandler) }\<close>.
  Calling a nil middleware panics.
\<close>

function middlewareHandler_loop :: "World \<Rightarrow> slice \<Rightarrow> int \<Rightarrow> Handler \<Rightarrow> panic + Handler" where
  "middlewareHandler_loop w ml i fullHandler =
     (if i \<ge> 0 then
        (case slice_index w ml i of
           Inl p \<Rightarrow> Inl p
         | Inr None \<Rightarrow> Inl Nil_function_call
         | Inr (Some m) \<Rightarrow> middlewareHandler_loop w ml (i - 1) (m fullHandler))
      else Inr fullHandler)"
  by pat_completeness auto
termination
  by (relation "measure (\<lambda>(w, ml, i, h). nat (i + 1))") auto

declare middlewareHandler_loop.simps [simp del]

definition middlewareHandler :: "nat \<Rightarrow> Handler \<Rightarrow> World \<Rightarrow> panic + Handler" where
  "middlewareHandler hg userHandler w =
     (let ml = middlewareList (groups w ! hg)
      in middlewareHandler_loop w ml (int (slice_len ml) - 1) userHandler)"

text \<open>
  The effective handler in the words of the specification: for the middleware list
  \<^verbatim>\<open>[m0, m1, ..., mk]\<close> and the leaf \<^verbatim>\<open>L\<close> it is \<^verbatim>\<open>m0(m1(...(mk(L))))\<close>, and the leaf itself
  for the empty list. The handler that the source builds is compared with it.
\<close>

fun spec_effective_handler :: "Middleware list \<Rightarrow> Handler \<Rightarrow> Handler" where
  "spec_effective_handler [] leaf = leaf"
| "spec_effective_handler (m # ms) leaf = m (spec_effective_handler ms leaf)"

text \<open>
  The \<^verbatim>\<open>httprouter.Handle\<close> that \<^verbatim>\<open>handlerShim\<close> returns. The closure holds the composed
  handler; at request time it reads \<^verbatim>\<open>hg.s.NewRequestLogger\<close> from the world as it is
  then. It returns nothing; its result here is the final state of the request's objects.
\<close>

type_synonym Handle = "World \<Rightarrow> http_ResponseWriter \<Rightarrow> http_Request \<Rightarrow> (string \<times> string) list \<Rightarrow> Context"

definition handlerShim_closure :: "go_env \<Rightarrow> Handler \<Rightarrow> Handle" where
  "handlerShim_closure go h = (\<lambda>w rw req p.
     (let lrw = \<lparr>lrw_rw = rw, statusCode = 0, contentLength = 0\<rparr>;
          r = \<lparr>cr_req = req, cr_params = p\<rparr>;
          rlb = NewRequestLogger (server w)
                  \<lparr>SimpleCtx = [], Response_rw = lrw, Request = r, escapeHatchUsed = False\<rparr>;
          c = \<lparr>SimpleCtx = [], Response_rw = lrw, Request = r, escapeHatchUsed = False,
               Log = \<lparr>rl_b = rlb\<rparr>\<rparr>;
          (err, c1) = h c;
          c2 = (case err of
                  Some e \<Rightarrow> c1\<lparr>Log := RequestLogger_Errorf go (Log c1)
                                 ''Error returned from request handler: %v'' [V_error e]\<rparr>
                | None \<Rightarrow> c1);
          c3 = (if statusCode (Response_rw c2) = 0
                then c2\<lparr>Log := RequestLogger_WTF go (Log c2) ''Handler didn't write a response''\<rparr>
                else c2)
      in c3\<lparr>Log := (Log c3)\<lparr>rl_b := base_WriteLogs (rl_b (Log c3))\<rparr>\<rparr>))"

text \<open>The context that the closure of \<^verbatim>\<open>handlerShim\<close> builds and passes to the handler.\<close>

definition request_Context ::
  "World \<Rightarrow> http_ResponseWriter \<Rightarrow> http_Request \<Rightarrow> (string \<times> string) list \<Rightarrow> Context" where
  "request_Context w rw req p =
     \<lparr>SimpleCtx = [], Response_rw = \<lparr>lrw_rw = rw, statusCode = 0, contentLength = 0\<rparr>,
      Request = \<lparr>cr_req = req, cr_params = p\<rparr>, escapeHatchUsed = False,
      Log = \<lparr>rl_b = NewRequestLogger (server w)
              \<lparr>SimpleCtx = [], Response_rw = \<lparr>lrw_rw = rw, statusCode = 0, contentLength = 0\<rparr>,
               Request = \<lparr>cr_req = req, cr_params = p\<rparr>, escapeHatchUsed = False\<rparr>\<rparr>\<rparr>"

definition handlerShim :: "go_env \<Rightarrow> nat \<Rightarrow> Handler \<Rightarrow> World \<Rightarrow> panic + Handle" where
  "handlerShim go hg h w =
     (case middlewareHandler hg h w of
        Inl p \<Rightarrow> Inl p
      | Inr h' \<Rightarrow> Inr (handlerShim_closure go h'))"

definition Server_GetHandlerGroup :: "string \<Rightarrow> World \<Rightarrow> nat \<times> World" where
  "Server_GetHandlerGroup basePath' w =
     (let (sl, w1) = go_make 0 w
      in (length (groups w1),
          w1\<lparr>groups := groups w1 @ [\<lparr>parent = None, middlewareList = sl, basePath = basePath'\<rparr>]\<rparr>))"

definition HandlerGroup_GetHandlerGroup :: "nat \<Rightarrow> string \<Rightarrow> World \<Rightarrow> nat \<times> World" where
  "HandlerGroup_GetHandlerGroup ohg basePath' w =
     (let (sl, w1) = go_make (slice_len (middlewareList (groups w ! ohg))) w;
          hg = length (groups w1);
          w2 = w1\<lparr>groups := groups w1 @
                 [\<lparr>parent = Some ohg, middlewareList = sl,
                   basePath = basePath (groups w1 ! ohg) @ basePath'\<rparr>]\<rparr>;
          (_, w3) = go_copy (middlewareList (groups w2 ! hg)) (middlewareList (groups w2 ! ohg)) w2
      in (hg, w3))"

definition HandlerGroup_AddMiddleware :: "go_env \<Rightarrow> nat \<Rightarrow> Middleware option list \<Rightarrow> World \<Rightarrow> World" where
  "HandlerGroup_AddMiddleware go hg m w =
     (let (sl, w1) = go_append go (middlewareList (groups w ! hg)) m w
      in w1\<lparr>groups := (groups w1)[hg := (groups w1 ! hg)\<lparr>middlewareList := sl\<rparr>]\<rparr>)"

text \<open>
  The router is an object outside the package. Its state is the list of the
  registrations it has received; it is kept beside the world because a handle reads the
  world at request time.
\<close>

record route =
  route_method :: string
  route_path :: string
  route_handle :: Handle

record App =
  world :: World
  router :: "route list"

definition router_Handle :: "string \<Rightarrow> string \<Rightarrow> Handle \<Rightarrow> App \<Rightarrow> App" where
  "router_Handle method path' handle app =
     app\<lparr>router := router app @ [\<lparr>route_method = method, route_path = path', route_handle = handle\<rparr>]\<rparr>"

text \<open>
  The seven registration methods differ in the method of the router only:
  \<^verbatim>\<open>path = hg.basePath + path; hg.s.router.GET(path, hg.handlerShim(h))\<close>.
\<close>

definition HandlerGroup_register :: "string \<Rightarrow> go_env \<Rightarrow> nat \<Rightarrow> string \<Rightarrow> Handler \<Rightarrow> App \<Rightarrow> panic + App" where
  "HandlerGroup_register method go hg path' h app =
     (let path1 = basePath (groups (world app) ! hg) @ path'
      in case handlerShim go hg h (world app) of
           Inl p \<Rightarrow> Inl p
         | Inr handle \<Rightarrow> Inr (router_Handle method path1 handle app))"

definition HandlerGroup_DELETE :: "go_env \<Rightarrow> nat \<Rightarrow> string \<Rightarrow> Handler \<Rightarrow> App \<Rightarrow> panic + App" where
  "HandlerGroup_DELETE = HandlerGroup_register ''DELETE''"

definition HandlerGroup_GET :: "go_env \<Rightarrow> nat \<Rightarrow> string \<Rightarrow> Handler \<Rightarrow> App \<Rightarrow> panic + App" where
  "HandlerGroup_GET = HandlerGroup_register ''GET''"

definition HandlerGroup_HEAD :: "go_env \<Rightarrow> nat \<Rightarrow> string \<Rightarrow> Handler \<Rightarrow> App \<Rightarrow> panic + App" where
  "HandlerGroup_HEAD = HandlerGroup_register ''HEAD''"

definition HandlerGroup_OPTIONS :: "go_env \<Rightarrow> nat \<Rightarrow> string \<Rightarrow> Handler \<Rightarrow> App \<Rightarrow> panic + App" where
  "HandlerGroup_OPTIONS = HandlerGroup_register ''OPTIONS''"

definition HandlerGroup_PATCH :: "go_env \<Rightarrow> nat \<Rightarrow> string \<Rightarrow> Handler \<Rightarrow> App \<Rightarrow> panic + App" where
  "HandlerGroup_PATCH = HandlerGroup_register ''PATCH''"

definition HandlerGroup_POST :: "go_env \<Rightarrow> nat \<Rightarrow> string \<Rightarrow> Handler \<Rightarrow> App \<Rightarrow> panic + App" where
  "HandlerGroup_POST = HandlerGroup_register ''POST''"

definition HandlerGroup_PUT :: "go_env \<Rightarrow> nat \<Rightarrow> string \<Rightarrow> Handler \<Rightarrow> App \<Rightarrow> panic + App" where
  "HandlerGroup_PUT = HandlerGroup_register ''PUT''"

text \<open>
  \<^verbatim>\<open>NewServer\<close>: a server with an empty router. \<^verbatim>\<open>NewRequestLogger\<close> is a field that the
  application sets before serving; it is given here.
\<close>

definition NewServer :: "(Context_base \<Rightarrow> RequestLoggerBase) \<Rightarrow> App" where
  "NewServer nrl = \<lparr>world = \<lparr>server = \<lparr>NewRequestLogger = nrl\<rparr>, groups = [], arrays = []\<rparr>, router = []\<rparr>"

subsection \<open>Well-formed worlds\<close>

text \<open>
  What holds of every world built by the functions above: a group's slice lies within
  its array, and no two groups have the same array.
\<close>

definition wf_slice :: "World \<Rightarrow> slice \<Rightarrow> bool" where
  "wf_slice w s =
     (slice_ptr s < length (arrays w) \<and> slice_len s \<le> slice_cap s \<and>
      slice_cap s = length (arrays w ! slice_ptr s))"

definition wf_World :: "World \<Rightarrow> bool" where
  "wf_World w =
     (list_all (\<lambda>g. wf_slice w (middlewareList g)) (groups w) \<and>
      distinct (map (\<lambda>g. slice_ptr (middlewareList g)) (groups w)))"

text \<open>The middleware list of a group, as its elements.\<close>

definition group_middleware :: "World \<Rightarrow> nat \<Rightarrow> Middleware option list" where
  "group_middleware w hg = slice_elems w (middlewareList (groups w ! hg))"

text \<open>Any sequence of later \<^verbatim>\<open>AddMiddleware\<close> calls, each on some group.\<close>

fun AddMiddleware_calls :: "go_env \<Rightarrow> (nat \<times> Middleware option list) list \<Rightarrow> World \<Rightarrow> World" where
  "AddMiddleware_calls go [] w = w"
| "AddMiddleware_calls go ((hg, m) # calls) w =
     AddMiddleware_calls go calls (HandlerGroup_AddMiddleware go hg m w)"

section \<open>Concrete inputs\<close>

text \<open>
  Objects on which the functions are run: a writer that takes every byte, a writer whose
  \<^verbatim>\<open>Write\<close> fails, a sink with a formatter of its own, and the context that
  \<^verbatim>\<open>handlerShim\<close> builds from them.
\<close>

definition writer_ok :: http_ResponseWriter where
  "writer_ok = \<lparr>rw_header = Map.empty, rw_calls = [], rw_Write_result = (\<lambda>h calls bs. (go_len bs, None))\<rparr>"

definition writer_broken :: http_ResponseWriter where
  "writer_broken =
     \<lparr>rw_header = Map.empty, rw_calls = [],
      rw_Write_result = (\<lambda>h calls bs. (0, Some (ErrorString ''broken pipe'')))\<rparr>"

definition sink_tagging :: RequestLoggerBase where
  "sink_tagging = \<lparr>FormatLog_result = (\<lambda>format values. ''[sink] '' @ format), sink_calls = []\<rparr>"

definition request_get :: http_Request where
  "request_get = \<lparr>Method = ''GET'', URL = ''/items'', Body = []\<rparr>"

definition context_of :: "http_ResponseWriter \<Rightarrow> Context" where
  "context_of w =
     \<lparr>SimpleCtx = [], Response_rw = new_loggingResponseWriter w,
      Request = \<lparr>cr_req = request_get, cr_params = []\<rparr>, escapeHatchUsed = False,
      Log = \<lparr>rl_b = sink_tagging\<rparr>\<rparr>"

text \<open>
  A writer on which the handler has set \<^verbatim>\<open>Content-Type\<close> to the empty string
  (\<^verbatim>\<open>Header().Set("Content-Type", "")\<close>), and a failing writer on which it has set
  \<^verbatim>\<open>text/html\<close>.
\<close>

definition writer_empty_type :: http_ResponseWriter where
  "writer_empty_type = writer_ok\<lparr>rw_header := [''Content-Type'' \<mapsto> ['''']]\<rparr>"

definition writer_html :: http_ResponseWriter where
  "writer_html = writer_broken\<lparr>rw_header := [''Content-Type'' \<mapsto> [''text/html'']]\<rparr>"

definition ops_example :: "lrw_op list" where
  "ops_example =
     [Op_SetHeader ''X-A'' ''1'', Op_Write ''ab'', Op_WriteHeader 404, Op_Write ''cde'',
      Op_WriteHeader 200, Op_Write ''f'']"

text \<open>
  A stream of five bytes at position two, whose three seeks fail as given: \<^verbatim>\<open>Seek\<close>
  answers 2 for the current position, 5 for the end and the offset for a seek from the
  start; the reads give the remaining three bytes in two chunks.
\<close>

definition stream_example :: "go_error option \<Rightarrow> go_error option \<Rightarrow> go_error option \<Rightarrow> io_ReadSeeker" where
  "stream_example e_cur e_end e_back =
     \<lparr>rs_Seek_result = (\<lambda>seeks offset wh.
        case wh of SeekCurrent \<Rightarrow> (2, e_cur) | SeekEnd \<Rightarrow> (5, e_end) | SeekStart \<Rightarrow> (offset, e_back)),
      rs_seeks = [],
      rs_Read_results = (\<lambda>seeks. [(''cd'', None), (''e'', Some EOF)]),
      rs_consumed = 0\<rparr>"

definition no_seek :: go_error where
  "no_seek = ErrorString ''no seek''"

text \<open>
  Handlers and a classic middleware to run: a handler that returns an error and writes
  nothing, one that answers 204, one that answers 200 and then returns an error; a
  classic middleware that hands a writer of its own to \<open>next\<close>; and a world whose
  server gives every request the sink above.
\<close>

definition handler_fails :: Handler where
  "handler_fails = (\<lambda>c. (Some (ErrorString ''boom''), c))"

definition handler_no_content :: Handler where
  "handler_no_content = ContextResponse_Status 204"

definition handler_answers_then_fails :: Handler where
  "handler_answers_then_fails =
     (\<lambda>c. (Some (ErrorString ''boom''), snd (ContextResponse_String 200 ''ok'' c)))"



definition classic_wrapping :: "http_Handler \<Rightarrow> http_Handler" where
  "classic_wrapping next = (\<lambda>w r. next (Other_ref 1) (r\<lparr>URL := ''/rewritten''\<rparr>))"

definition world_example :: World where
  "world_example = \<lparr>server = \<lparr>NewRequestLogger = (\<lambda>c. sink_tagging)\<rparr>, groups = [], arrays = []\<rparr>"

text \<open>
  A middleware that logs when it is entered and when it is left, and a leaf that logs
  and answers 204: they show the order in which a composed handler runs.
\<close>

definition marker :: "string \<Rightarrow> Middleware" where
  "marker name next =
     (\<lambda>c. (let c1 = c\<lparr>Log := RequestLogger_Info (Log c) (''enter '' @ name)\<rparr>;
                (err, c2) = next c1
            in (err, c2\<lparr>Log := RequestLogger_Info (Log c2) (''exit '' @ name)\<rparr>)))"

definition handler_leaf :: Handler where
  "handler_leaf = (\<lambda>c. ContextResponse_Status 204 (c\<lparr>Log := RequestLogger_Info (Log c) ''leaf''\<rparr>))"

text \<open>
  A registration: a root group at \<^verbatim>\<open>/api\<close> with the middleware \<^verbatim>\<open>auth\<close> and \<^verbatim>\<open>timing\<close>
  (group 0), and a child at \<^verbatim>\<open>/v1\<close> (group 1), derived after that.
\<close>

definition world_api :: World where
  "world_api =
     HandlerGroup_AddMiddleware go_default 0 [Some (marker ''auth''), Some (marker ''timing'')]
       (snd (Server_GetHandlerGroup ''/api'' world_example))"

definition world_v1 :: World where
  "world_v1 = snd (HandlerGroup_GetHandlerGroup 0 ''/v1'' world_api)"

text \<open>
  The child with a middleware of its own, \<^verbatim>\<open>rateLimit\<close>; and the root with a middleware
  added after the child was derived.
\<close>

definition world_v1_limited :: World where
  "world_v1_limited = HandlerGroup_AddMiddleware go_default 1 [Some (marker ''rateLimit'')] world_v1"

definition world_v1_late :: World where
  "world_v1_late = HandlerGroup_AddMiddleware go_default 0 [Some (marker ''late'')] world_v1"

section \<open>Properties of the logger\<close>

lemma runtime_Stack_take:
  "runtime_Stack go (replicate k z) = (n, buf') \<Longrightarrow> take n buf' = take k (runtime_stack_text go)"
  by (auto simp: runtime_Stack_def Let_def min_def)

lemma Infof_calls:
  "sink_calls (rl_b (RequestLogger_Infof go rl format values)) =
     sink_calls (rl_b rl) @ [Call_Info (fmt_Sprintf go format values)]"
  by (simp add: RequestLogger_Infof_def RequestLogger_Info_def base_Info_def)

lemma Warningf_calls:
  "sink_calls (rl_b (RequestLogger_Warningf go rl format values)) =
     sink_calls (rl_b rl) @ [Call_Warning (fmt_Sprintf go format values)]"
  by (simp add: RequestLogger_Warningf_def RequestLogger_Warning_def base_Warning_def)

lemma Errorf_calls:
  "sink_calls (rl_b (RequestLogger_Errorf go rl format values)) =
     sink_calls (rl_b rl) @ [Call_Error (fmt_Sprintf go format values)]"
  by (simp add: RequestLogger_Errorf_def RequestLogger_Error_def base_Error_def)

lemma WTF_calls:
  "sink_calls (rl_b (RequestLogger_WTF go rl msg)) =
     sink_calls (rl_b rl) @
       [Call_WTF msg, Call_WTF (''Stack Trace:'' @ [CHR 0x0A] @ take 100000 (runtime_stack_text go))]"
  by (auto simp: RequestLogger_WTF_def Let_def base_WTF_def split: prod.splits
        dest!: runtime_Stack_take)

lemma WTFf_calls:
  "sink_calls (rl_b (RequestLogger_WTFf go rl format values)) =
     sink_calls (rl_b rl) @
       [Call_WTF (fmt_Sprintf go format values),
        Call_WTF (''Stack Trace:'' @ [CHR 0x0A] @ take 100000 (runtime_stack_text go))]"
  by (simp add: RequestLogger_WTFf_def WTF_calls)

text \<open>
  Claim C9. Every call \<^verbatim>\<open>WTF(msg)\<close> of the facade makes exactly two calls on the sink,
  both at the fatal-bug level and in this order: first \<open>msg\<close>, then the text
  \<^verbatim>\<open>"Stack Trace:\n"\<close> followed by the snapshot of the call stack, which was taken into a
  buffer of 100000 bytes and so has at most 100000 bytes.
\<close>

theorem C9_WTF_two_fatal_bug_events:
  "sink_calls (rl_b (RequestLogger_WTF go rl msg)) =
     sink_calls (rl_b rl) @
       [Call_WTF msg, Call_WTF (''Stack Trace:'' @ [CHR 0x0A] @ take 100000 (runtime_stack_text go))]
   \<and> length (take 100000 (runtime_stack_text go)) \<le> 100000
   \<and> fst (runtime_Stack go (replicate 100000 (CHR 0x00))) \<le> 100000"
  by (simp add: WTF_calls runtime_Stack_def Let_def)

text \<open>
  Claim C5. The claim says that \<^verbatim>\<open>Infof\<close>, \<^verbatim>\<open>Warningf\<close>, \<^verbatim>\<open>Errorf\<close> and \<^verbatim>\<open>WTFf\<close> deliver
  the result of the sink's own \<^verbatim>\<open>FormatLog\<close>, as the comments of the source say too. The
  code formats with \<^verbatim>\<open>fmt.Sprintf\<close> and never calls \<^verbatim>\<open>FormatLog\<close>: on a sink whose
  formatter puts a tag before the template, the message \<^verbatim>\<open>ping\<close> arrives without the tag
  at each of the four levels.
\<close>

theorem C5_formatted_variants_bypass_FormatLog:
  "FormatLog_result sink_tagging ''ping'' [] = ''[sink] ping''
   \<and> sink_calls (rl_b (RequestLogger_Infof go_default \<lparr>rl_b = sink_tagging\<rparr> ''ping'' [])) =
       [Call_Info ''ping'']
   \<and> sink_calls (rl_b (RequestLogger_Warningf go_default \<lparr>rl_b = sink_tagging\<rparr> ''ping'' [])) =
       [Call_Warning ''ping'']
   \<and> sink_calls (rl_b (RequestLogger_Errorf go_default \<lparr>rl_b = sink_tagging\<rparr> ''ping'' [])) =
       [Call_Error ''ping'']
   \<and> sink_calls (rl_b (RequestLogger_WTFf go_default \<lparr>rl_b = sink_tagging\<rparr> ''ping'' [])) =
       [Call_WTF ''ping'', Call_WTF (''Stack Trace:'' @ [CHR 0x0A] @ ''goroutine 1 [running]:'')]"
  by (simp add: Infof_calls Warningf_calls Errorf_calls WTFf_calls sink_tagging_def go_default_def)

section \<open>Properties of the response tracker\<close>

lemma lrw_step_raw:
  "lrw_step x lrw = (rs, lrw') \<Longrightarrow>
     raw_step x (lrw_rw lrw) = (rs, lrw_rw lrw') \<and>
     statusCode lrw' = (case x of Op_WriteHeader code \<Rightarrow> code | _ \<Rightarrow> statusCode lrw) \<and>
     contentLength lrw' = contentLength lrw + sum_list (map fst rs)"
  by (cases x)
     (auto simp: loggingResponseWriter_Write_def loggingResponseWriter_WriteHeader_def
        loggingResponseWriter_Header_def Let_def split: prod.splits)

lemma lrw_run_raw:
  "lrw_run ops lrw = (rs, lrw') \<Longrightarrow>
     raw_run ops (lrw_rw lrw) = (rs, lrw_rw lrw') \<and>
     statusCode lrw' = last (statusCode lrw # WriteHeader_codes ops) \<and>
     contentLength lrw' = contentLength lrw + sum_list (map fst rs)"
proof (induction ops arbitrary: lrw rs lrw')
  case Nil
  then show ?case by simp
next
  case (Cons x xs)
  obtain rs1 lrw1 where s: "lrw_step x lrw = (rs1, lrw1)" by force
  obtain rs2 lrw2 where r: "lrw_run xs lrw1 = (rs2, lrw2)" by force
  from Cons.prems s r have e: "rs = rs1 @ rs2" "lrw' = lrw2" by simp_all
  note a = lrw_step_raw [OF s] and b = Cons.IH [OF r]
  show ?case using a b e by (cases x) (simp_all add: add.assoc)
qed

lemma last_codes_zero:
  "0 \<notin> set cs \<Longrightarrow> (last ((0::go_int) # cs) = 0) = (cs = [])"
  by (cases cs rule: rev_cases) auto

lemma run_ops_example:
  "lrw_run ops_example (new_loggingResponseWriter writer_ok) =
     ([(2, None), (3, None), (1, None)],
      \<lparr>lrw_rw = writer_ok\<lparr>rw_header := [''X-A'' \<mapsto> [''1'']],
          rw_calls := [Call_Write ''ab'', Call_WriteHeader 404, Call_Write ''cde'',
                       Call_WriteHeader 200, Call_Write ''f'']\<rparr>,
       statusCode = 200, contentLength = 6\<rparr>)"
  by (simp add: ops_example_def new_loggingResponseWriter_def writer_ok_def
        loggingResponseWriter_Write_def loggingResponseWriter_WriteHeader_def raw_Write_def
        raw_WriteHeader_def Let_def go_len_def loggingResponseWriter_Header_def Header_Set_def)

text \<open>
  What the tracker does on every input. It forwards: \<^verbatim>\<open>Write\<close> returns the count and the error of the
  underlying writer and has the same effect on it, \<^verbatim>\<open>WriteHeader\<close> has the effect of the
  underlying \<^verbatim>\<open>WriteHeader\<close>, and \<^verbatim>\<open>Header\<close> is the underlying header; so any sequence of
  calls on the tracker gives the results and the final underlying writer that the same
  calls on the underlying writer give. After any such sequence, from the tracker that
  \<^verbatim>\<open>handlerShim\<close> builds, the tracked status is the argument of the last \<^verbatim>\<open>WriteHeader\<close>
  call, and 0 when there was none (\<^verbatim>\<open>Write\<close> leaves it as it is); when no call wrote the
  status 0, the tracked status is 0 exactly when there was no \<^verbatim>\<open>WriteHeader\<close>. The byte
  counter is the sum of the counts the \<^verbatim>\<open>Write\<close> calls returned, and \<^verbatim>\<open>GetStatusCode\<close>
  returns the tracked status.
\<close>

lemma tracker_forwards_and_records:
  assumes run: "lrw_run ops (new_loggingResponseWriter w) = (rs, lrw')"
  shows "fst (loggingResponseWriter_Write bs lrw) = fst (raw_Write bs (lrw_rw lrw))
     \<and> lrw_rw (snd (loggingResponseWriter_Write bs lrw)) = snd (raw_Write bs (lrw_rw lrw))
     \<and> contentLength (snd (loggingResponseWriter_Write bs lrw)) =
         contentLength lrw + fst (fst (raw_Write bs (lrw_rw lrw)))
     \<and> statusCode (snd (loggingResponseWriter_Write bs lrw)) = statusCode lrw
     \<and> lrw_rw (loggingResponseWriter_WriteHeader code lrw) = raw_WriteHeader code (lrw_rw lrw)
     \<and> statusCode (loggingResponseWriter_WriteHeader code lrw) = code
     \<and> contentLength (loggingResponseWriter_WriteHeader code lrw) = contentLength lrw
     \<and> loggingResponseWriter_Header lrw = rw_header (lrw_rw lrw)
     \<and> raw_run ops w = (rs, lrw_rw lrw')
     \<and> statusCode lrw' = last (0 # WriteHeader_codes ops)
     \<and> (WriteHeader_codes ops = [] \<longrightarrow> statusCode lrw' = 0)
     \<and> (0 \<notin> set (WriteHeader_codes ops) \<longrightarrow> (statusCode lrw' = 0) = (WriteHeader_codes ops = []))
     \<and> contentLength lrw' = sum_list (map fst rs)
     \<and> ContextResponse_GetStatusCode (c\<lparr>Response_rw := lrw'\<rparr>) = statusCode lrw'"
proof -
  have step: "fst (loggingResponseWriter_Write bs lrw) = fst (raw_Write bs (lrw_rw lrw))
     \<and> lrw_rw (snd (loggingResponseWriter_Write bs lrw)) = snd (raw_Write bs (lrw_rw lrw))
     \<and> contentLength (snd (loggingResponseWriter_Write bs lrw)) =
         contentLength lrw + fst (fst (raw_Write bs (lrw_rw lrw)))
     \<and> statusCode (snd (loggingResponseWriter_Write bs lrw)) = statusCode lrw"
    by (simp add: loggingResponseWriter_Write_def Let_def split: prod.splits)
  have hdr: "lrw_rw (loggingResponseWriter_WriteHeader code lrw) = raw_WriteHeader code (lrw_rw lrw)
     \<and> statusCode (loggingResponseWriter_WriteHeader code lrw) = code
     \<and> contentLength (loggingResponseWriter_WriteHeader code lrw) = contentLength lrw
     \<and> loggingResponseWriter_Header lrw = rw_header (lrw_rw lrw)"
    by (simp add: loggingResponseWriter_WriteHeader_def loggingResponseWriter_Header_def Let_def)
  from lrw_run_raw [OF run]
  have r: "raw_run ops w = (rs, lrw_rw lrw')"
    "statusCode lrw' = last (0 # WriteHeader_codes ops)"
    "contentLength lrw' = sum_list (map fst rs)"
    by (simp_all add: new_loggingResponseWriter_def)
  have z: "0 \<notin> set (WriteHeader_codes ops) \<longrightarrow> (statusCode lrw' = 0) = (WriteHeader_codes ops = [])"
    using last_codes_zero [of "WriteHeader_codes ops"] r(2) by simp
  have g: "ContextResponse_GetStatusCode (c\<lparr>Response_rw := lrw'\<rparr>) = statusCode lrw'"
    by (simp add: ContextResponse_GetStatusCode_def)
  show ?thesis using step hdr r z g by simp
qed

lemma tracker_forwards_and_records_example:
  "raw_run ops_example writer_ok =
     ([(2, None), (3, None), (1, None)],
      writer_ok\<lparr>rw_header := [''X-A'' \<mapsto> [''1'']],
          rw_calls := [Call_Write ''ab'', Call_WriteHeader 404, Call_Write ''cde'',
                       Call_WriteHeader 200, Call_Write ''f'']\<rparr>)
   \<and> WriteHeader_codes ops_example = [404, 200]
   \<and> statusCode (snd (lrw_run ops_example (new_loggingResponseWriter writer_ok))) = 200
   \<and> contentLength (snd (lrw_run ops_example (new_loggingResponseWriter writer_ok))) = 6
   \<and> WriteHeader_codes [Op_Write ''ab''] = []
   \<and> statusCode (snd (lrw_run [Op_Write ''ab''] (new_loggingResponseWriter writer_ok))) = 0"
proof -
  have e: "lrw_run [Op_Write ''ab''] (new_loggingResponseWriter writer_ok) =
     (fst (lrw_run [Op_Write ''ab''] (new_loggingResponseWriter writer_ok)),
      snd (lrw_run [Op_Write ''ab''] (new_loggingResponseWriter writer_ok)))"
    by simp
  note A = tracker_forwards_and_records [OF run_ops_example,
      of "''x''" "new_loggingResponseWriter writer_ok" 200 "context_of writer_ok"]
  note B = tracker_forwards_and_records [OF e,
      of "''x''" "new_loggingResponseWriter writer_ok" 200 "context_of writer_ok"]
  have codes: "WriteHeader_codes ops_example = [404, 200]" "WriteHeader_codes [Op_Write ''ab''] = []"
    by (simp_all add: ops_example_def)
  from A have "raw_run ops_example writer_ok =
     ([(2, None), (3, None), (1, None)],
      lrw_rw \<lparr>lrw_rw = writer_ok\<lparr>rw_header := [''X-A'' \<mapsto> [''1'']],
          rw_calls := [Call_Write ''ab'', Call_WriteHeader 404, Call_Write ''cde'',
                       Call_WriteHeader 200, Call_Write ''f'']\<rparr>,
       statusCode = 200, contentLength = 6\<rparr>)"
    by blast
  then have a1: "raw_run ops_example writer_ok =
     ([(2, None), (3, None), (1, None)],
      writer_ok\<lparr>rw_header := [''X-A'' \<mapsto> [''1'']],
          rw_calls := [Call_Write ''ab'', Call_WriteHeader 404, Call_Write ''cde'',
                       Call_WriteHeader 200, Call_Write ''f'']\<rparr>)"
    by simp
  from B codes(2)
  have b1: "statusCode (snd (lrw_run [Op_Write ''ab''] (new_loggingResponseWriter writer_ok))) = 0"
    by blast
  show ?thesis
    using a1 b1 codes by (simp add: run_ops_example)
qed


section \<open>Properties of the response facade\<close>

lemmas response_defs =
  ContextResponse_Bytes_def ContextResponse_String_def setHeaderIfNotAlreadySet_def
  ContextResponse_Header_Set_def ContextResponse_Header_def loggingResponseWriter_Header_def
  Header_Set_def rw_WriteHeader_def rw_Write_def loggingResponseWriter_Write_def
  loggingResponseWriter_WriteHeader_def raw_Write_def raw_WriteHeader_def

lemma Header_observed:
  "ContextResponse_Header (ContextResponse_Header_Set k v c) = (ContextResponse_Header c)(k \<mapsto> [v])"
  "ContextResponse_Header (c\<lparr>Log := l\<rparr>) = ContextResponse_Header c"
  "ContextResponse_Header (c\<lparr>Response_rw := lrw\<rparr>) = rw_header (lrw_rw lrw)"
  "ContextResponse_Header (context_of w) = rw_header w"
  "Log (ContextResponse_Header_Set k v c) = Log c"
  by (simp_all add: ContextResponse_Header_Set_def ContextResponse_Header_def
        loggingResponseWriter_Header_def Header_Set_def context_of_def new_loggingResponseWriter_def)

lemma Header_Get_upd: "Header_Get (h(k \<mapsto> [v])) k = v"
  by (simp add: Header_Get_def)

lemma setHeaderIfNotAlreadySet_observed:
  "ContextResponse_Header (setHeaderIfNotAlreadySet key val c) =
     (if Header_Get (ContextResponse_Header c) key \<noteq> [] then ContextResponse_Header c
      else (ContextResponse_Header c)(key \<mapsto> [val]))"
  "lrw_rw (Response_rw (setHeaderIfNotAlreadySet key val c)) =
     (lrw_rw (Response_rw c))\<lparr>rw_header := ContextResponse_Header (setHeaderIfNotAlreadySet key val c)\<rparr>"
  "statusCode (Response_rw (setHeaderIfNotAlreadySet key val c)) = statusCode (Response_rw c)"
  "contentLength (Response_rw (setHeaderIfNotAlreadySet key val c)) = contentLength (Response_rw c)"
  by (simp_all add: setHeaderIfNotAlreadySet_def Let_def ContextResponse_Header_Set_def
        ContextResponse_Header_def loggingResponseWriter_Header_def Header_Set_def)

lemma Bytes_result:
  "ContextResponse_Bytes code body c =
     (let h = ContextResponse_Header c;
          h1 = (if Header_Get h ''Content-Type'' \<noteq> [] then h
                else h(''Content-Type'' \<mapsto> [''application/octet-stream'']));
          h2 = h1(''Content-Length'' \<mapsto> [strconv_Itoa (go_len body)]);
          w = lrw_rw (Response_rw c);
          r = rw_Write_result w h2 (rw_calls w @ [Call_WriteHeader code]) body
      in ((case snd r of None \<Rightarrow> None
           | Some e \<Rightarrow> Some (WrapError (''failed to write body: '' @ Error_text e) e)),
          c\<lparr>Response_rw :=
              \<lparr>lrw_rw = w\<lparr>rw_header := h2,
                             rw_calls := rw_calls w @ [Call_WriteHeader code, Call_Write body]\<rparr>,
               statusCode = code,
               contentLength = contentLength (Response_rw c) + fst r\<rparr>\<rparr>))"
  by (cases "Response_rw c") (auto simp: response_defs Let_def split: prod.splits option.splits)

lemma sint_go_len: "length xs < 2 ^ 63 \<Longrightarrow> sint (go_len xs) = int (length xs)"
  by (simp add: go_len_def signed_of_nat signed_take_bit_int_eq_self)

lemma Itoa_go_len: "length xs < 2 ^ 63 \<Longrightarrow> strconv_Itoa (go_len xs) = decimal (length xs)"
  by (simp add: strconv_Itoa_def strconv_FormatInt10_def sint_go_len)

text \<open>
  What \<^verbatim>\<open>Bytes(code, body)\<close> and \<^verbatim>\<open>String(code, body)\<close> do on every input: when
  \<^verbatim>\<open>Header().Get("Content-Type")\<close> is not empty before the call (the key has a first
  value and it is not the empty string), the \<^verbatim>\<open>Content-Type\<close> entry is left as it is;
  otherwise (the key is absent, or has no value, or its first value is empty) the entry
  becomes the default alone, \<^verbatim>\<open>application/octet-stream\<close> for \<^verbatim>\<open>Bytes\<close> and \<^verbatim>\<open>text/plain\<close>
  for \<^verbatim>\<open>String\<close>. \<^verbatim>\<open>Content-Length\<close> becomes the decimal text of \<^verbatim>\<open>len(body)\<close>; the
  underlying writer receives \<^verbatim>\<open>WriteHeader(code)\<close> and then \<^verbatim>\<open>Write(body)\<close>, with the whole
  body, and the tracked status is \<open>code\<close>; the call returns nil when that \<^verbatim>\<open>Write\<close> returns
  no error, and otherwise an error that wraps the error of the \<^verbatim>\<open>Write\<close>, with the text
  \<^verbatim>\<open>failed to write body: \<close> before the text of that error.
\<close>

lemma Bytes_String_response:
  "ContextResponse_Header (snd (ContextResponse_Bytes code body c)) ''Content-Type'' =
     (if Header_Get (ContextResponse_Header c) ''Content-Type'' \<noteq> []
      then ContextResponse_Header c ''Content-Type'' else Some [''application/octet-stream''])
   \<and> ContextResponse_Header (snd (ContextResponse_String code body c)) ''Content-Type'' =
     (if Header_Get (ContextResponse_Header c) ''Content-Type'' \<noteq> []
      then ContextResponse_Header c ''Content-Type'' else Some [''text/plain''])
   \<and> ContextResponse_Header (snd (ContextResponse_Bytes code body c)) ''Content-Length'' =
       Some [strconv_Itoa (go_len body)]
   \<and> ContextResponse_Header (snd (ContextResponse_String code body c)) ''Content-Length'' =
       Some [strconv_Itoa (go_len body)]
   \<and> rw_calls (lrw_rw (Response_rw (snd (ContextResponse_Bytes code body c)))) =
       rw_calls (lrw_rw (Response_rw c)) @ [Call_WriteHeader code, Call_Write body]
   \<and> rw_calls (lrw_rw (Response_rw (snd (ContextResponse_String code body c)))) =
       rw_calls (lrw_rw (Response_rw c)) @ [Call_WriteHeader code, Call_Write body]
   \<and> statusCode (Response_rw (snd (ContextResponse_Bytes code body c))) = code
   \<and> statusCode (Response_rw (snd (ContextResponse_String code body c))) = code
   \<and> fst (ContextResponse_Bytes code body c) =
       (case snd (rw_Write_result (lrw_rw (Response_rw c))
                    (ContextResponse_Header (snd (ContextResponse_Bytes code body c)))
                    (rw_calls (lrw_rw (Response_rw c)) @ [Call_WriteHeader code]) body) of
          None \<Rightarrow> None
        | Some e \<Rightarrow> Some (WrapError (''failed to write body: '' @ Error_text e) e))
   \<and> fst (ContextResponse_String code body c) =
       (case snd (rw_Write_result (lrw_rw (Response_rw c))
                    (ContextResponse_Header (snd (ContextResponse_String code body c)))
                    (rw_calls (lrw_rw (Response_rw c)) @ [Call_WriteHeader code]) body) of
          None \<Rightarrow> None
        | Some e \<Rightarrow> Some (WrapError (''failed to write body: '' @ Error_text e) e))"
  by (simp add: ContextResponse_String_def Bytes_result [of code body] Let_def
        setHeaderIfNotAlreadySet_observed Header_Get_upd Header_observed)

lemma Bytes_String_response_example:
  "ContextResponse_Header (snd (ContextResponse_Bytes 200 ''hi'' (context_of writer_html)))
        ''Content-Type'' = Some [''text/html'']
   \<and> ContextResponse_Header (snd (ContextResponse_Bytes 200 ''hi'' (context_of writer_html)))
        ''Content-Length'' = Some [''2'']
   \<and> fst (ContextResponse_Bytes 200 ''hi'' (context_of writer_html)) =
        Some (WrapError ''failed to write body: broken pipe'' (ErrorString ''broken pipe''))
   \<and> ContextResponse_Header (snd (ContextResponse_String 201 ''hi'' (context_of writer_ok)))
        ''Content-Type'' = Some [''text/plain'']
   \<and> rw_calls (lrw_rw (Response_rw (snd (ContextResponse_String 201 ''hi'' (context_of writer_ok))))) =
        [Call_WriteHeader 201, Call_Write ''hi'']
   \<and> statusCode (Response_rw (snd (ContextResponse_String 201 ''hi'' (context_of writer_ok)))) = 201
   \<and> fst (ContextResponse_String 201 ''hi'' (context_of writer_ok)) = None"
proof -
  have w: "rw_header writer_html ''Content-Type'' = Some [''text/html'']"
    "Header_Get (rw_header writer_html) ''Content-Type'' = ''text/html''"
    "Header_Get (rw_header writer_ok) ''Content-Type'' = []"
    "rw_Write_result (lrw_rw (Response_rw (context_of writer_html))) =
       (\<lambda>h calls bs. (0, Some (ErrorString ''broken pipe'')))"
    "rw_Write_result (lrw_rw (Response_rw (context_of writer_ok))) = (\<lambda>h calls bs. (go_len bs, None))"
    "rw_calls (lrw_rw (Response_rw (context_of writer_ok))) = []"
    by (simp_all add: writer_html_def writer_broken_def writer_ok_def Header_Get_def context_of_def
          new_loggingResponseWriter_def)
  have n: "strconv_Itoa (go_len ''hi'') = ''2''"
    by (simp add: strconv_Itoa_def strconv_FormatInt10_def go_len_def decimal.simps)
  show ?thesis
    using Bytes_String_response [of 200 "''hi''" "context_of writer_html"]
      Bytes_String_response [of 201 "''hi''" "context_of writer_ok"]
    by (simp add: w n Header_observed)
qed

text \<open>
  Claim C7. The claim says that a \<^verbatim>\<open>Content-Type\<close> already set by the handler is left
  unchanged and that the default is set only when the header is absent; the comment of
  \<^verbatim>\<open>setHeaderIfNotAlreadySet\<close> says that it checks if a header with the provided key
  already exists, and if not, sets it. The code tests \<^verbatim>\<open>header.Get(key) != ""\<close>, which is
  false also for a key that exists with an empty first value. A handler that has called
  \<^verbatim>\<open>Header().Set("Content-Type", "")\<close> has set the header and the key exists in the map,
  yet \<^verbatim>\<open>setHeaderIfNotAlreadySet\<close> sets it, and \<^verbatim>\<open>Bytes\<close> and \<^verbatim>\<open>String\<close> replace the
  handler's value by their defaults. The rest of the claim holds of the code: it is
  \<open>Bytes_String_response\<close>.
\<close>

theorem C7_empty_Content_Type_is_overwritten:
  "ContextResponse_Header (context_of writer_empty_type) ''Content-Type'' = Some ['''']
   \<and> ContextResponse_Header
        (setHeaderIfNotAlreadySet ''Content-Type'' ''application/octet-stream''
           (context_of writer_empty_type)) ''Content-Type'' = Some [''application/octet-stream'']
   \<and> ContextResponse_Header (snd (ContextResponse_Bytes 200 ''hi'' (context_of writer_empty_type)))
        ''Content-Type'' = Some [''application/octet-stream'']
   \<and> ContextResponse_Header (snd (ContextResponse_String 200 ''hi'' (context_of writer_empty_type)))
        ''Content-Type'' = Some [''text/plain'']"
  by (simp add: response_defs Let_def context_of_def writer_empty_type_def writer_ok_def
        new_loggingResponseWriter_def Header_Get_def)

section \<open>Properties of streaming\<close>

lemma sint_sub_no_overflow:
  fixes a b :: int64
  assumes a: "0 \<le> sint a" and b: "0 \<le> sint b"
  shows "sint (a - b) = sint a - sint b"
proof -
  have "sint a < 2 ^ 63" "sint b < 2 ^ 63"
    using sint_lt [of a] sint_lt [of b] by simp_all
  then have "- (2 ^ 63) \<le> sint a - sint b" "sint a - sint b < 2 ^ 63"
    using a b by simp_all
  then show ?thesis
    by (simp add: sint_word_ariths signed_take_bit_int_eq_self)
qed

lemma lrw_Write_inv:
  "loggingResponseWriter_Write bs lrw = (r, lrw') \<Longrightarrow>
     rw_header (lrw_rw lrw') = rw_header (lrw_rw lrw) \<and> statusCode lrw' = statusCode lrw \<and>
     rw_calls (lrw_rw lrw') = rw_calls (lrw_rw lrw) @ [Call_Write bs]"
  by (auto simp: loggingResponseWriter_Write_def raw_Write_def Let_def split: prod.splits)

lemma io_Copy_loop_inv:
  "io_Copy_loop rs lrw = (r, k, lrw') \<Longrightarrow>
     rw_header (lrw_rw lrw') = rw_header (lrw_rw lrw) \<and> statusCode lrw' = statusCode lrw \<and>
     (\<exists>ws. rw_calls (lrw_rw lrw') = rw_calls (lrw_rw lrw) @ map Call_Write ws)"
proof (induction rs arbitrary: lrw r k lrw')
  case Nil
  then show ?case by simp
next
  case (Cons x rs)
  obtain buf er where x: "x = (buf, er)" by (cases x)
  show ?case
  proof (cases "buf = []")
    case True
    with Cons.prems x show ?thesis
      by (auto split: option.splits prod.splits if_splits dest!: Cons.IH)
  next
    case False
    obtain nw ew lrw1 where w: "loggingResponseWriter_Write buf lrw = ((nw, ew), lrw1)"
      by (metis prod.exhaust)
    note i = lrw_Write_inv [OF w]
    from Cons.prems x False w
    have "lrw' = lrw1 \<or> (\<exists>r2 k2. io_Copy_loop rs lrw1 = (r2, k2, lrw'))"
      by (auto simp: Let_def split: option.splits prod.splits if_splits)
    then show ?thesis
    proof
      assume "lrw' = lrw1"
      with i have "rw_header (lrw_rw lrw') = rw_header (lrw_rw lrw)" "statusCode lrw' = statusCode lrw"
        "rw_calls (lrw_rw lrw') = rw_calls (lrw_rw lrw) @ map Call_Write [buf]" by simp_all
      then show ?thesis by blast
    next
      assume "\<exists>r2 k2. io_Copy_loop rs lrw1 = (r2, k2, lrw')"
      then obtain r2 k2 where "io_Copy_loop rs lrw1 = (r2, k2, lrw')" by blast
      from Cons.IH [OF this] obtain ws where
        "rw_header (lrw_rw lrw') = rw_header (lrw_rw lrw1)" "statusCode lrw' = statusCode lrw1"
        "rw_calls (lrw_rw lrw') = rw_calls (lrw_rw lrw1) @ map Call_Write ws" by blast
      with i have "rw_header (lrw_rw lrw') = rw_header (lrw_rw lrw)" "statusCode lrw' = statusCode lrw"
        "rw_calls (lrw_rw lrw') = rw_calls (lrw_rw lrw) @ map Call_Write (buf # ws)" by simp_all
      then show ?thesis by blast
    qed
  qed
qed

text \<open>
  \<^verbatim>\<open>Stream\<close> writes the status and then only bodies: it leaves the header and the logger
  as they are.
\<close>

lemma Stream_inv:
  assumes a: "ContextResponse_Stream code stream c = (err, stream', c')"
  shows "ContextResponse_Header c' = ContextResponse_Header c \<and> Log c' = Log c \<and>
     statusCode (Response_rw c') = code \<and>
     (\<exists>ws. rw_calls (lrw_rw (Response_rw c')) =
             rw_calls (lrw_rw (Response_rw c)) @ Call_WriteHeader code # map Call_Write ws)"
proof -
  let ?c1 = "rw_WriteHeader code c"
  obtain r k lrw where l: "io_Copy_loop (drop (rs_consumed stream)
      (rs_Read_results stream (rs_seeks stream))) (Response_rw ?c1) = (r, k, lrw)"
    by (metis prod.exhaust)
  from a l have c': "c' = ?c1\<lparr>Response_rw := lrw\<rparr>"
    by (simp add: ContextResponse_Stream_def io_Copy_def Let_def)
  from io_Copy_loop_inv [OF l] obtain ws where
    "rw_header (lrw_rw lrw) = rw_header (lrw_rw (Response_rw ?c1))"
    "statusCode lrw = statusCode (Response_rw ?c1)"
    "rw_calls (lrw_rw lrw) = rw_calls (lrw_rw (Response_rw ?c1)) @ map Call_Write ws" by blast
  then have "ContextResponse_Header c' = ContextResponse_Header c" "Log c' = Log c"
      "statusCode (Response_rw c') = code"
      "rw_calls (lrw_rw (Response_rw c')) =
         rw_calls (lrw_rw (Response_rw c)) @ Call_WriteHeader code # map Call_Write ws"
    using c' by (simp_all add: rw_WriteHeader_def loggingResponseWriter_WriteHeader_def
         raw_WriteHeader_def ContextResponse_Header_def loggingResponseWriter_Header_def Let_def)
  then show ?thesis by blast
qed

lemma Stream_observed:
  "ContextResponse_Header (snd (snd (ContextResponse_Stream code stream c))) = ContextResponse_Header c"
  "Log (snd (snd (ContextResponse_Stream code stream c))) = Log c"
  using Stream_inv [of code stream c] by (metis prod.collapse)+

lemma Info_calls:
  "sink_calls (rl_b (RequestLogger_Info rl msg)) = sink_calls (rl_b rl) @ [Call_Info msg]"
  by (simp add: RequestLogger_Info_def base_Info_def)

text \<open>
  Claim C4. Name the results of the three seeks that \<^verbatim>\<open>StreamReadSeeker\<close> makes, in
  order: the current position, the end, and the way back to the current position.
  \<^item> When all three succeed, the call is \<^verbatim>\<open>Stream\<close> on the context whose \<^verbatim>\<open>Content-Length\<close>
    is the decimal text of end minus current (in \<^verbatim>\<open>int64\<close>; the difference of the
    numbers whenever neither is negative); nothing is logged.
  \<^item> When the first fails, or the first succeeds and the second fails, the call is
    \<^verbatim>\<open>Stream\<close> on the context to which a Warning with the error and an Info have been
    logged; the header is after the call what it was before, so no \<^verbatim>\<open>Content-Length\<close> has
    been set, and the result is that of \<^verbatim>\<open>Stream\<close>.
  \<^item> When the first two succeed and the way back fails, the call returns the error
    \<^verbatim>\<open>failed to safely determine stream length - aborting\<close>, logs an Error, and leaves the
    response writer untouched: no status, no body, no header.
\<close>

theorem C4_StreamReadSeeker:
  assumes cur: "stream_Seek 0 SeekCurrent stream = ((currentPos, e1), stream1)"
      and tot: "stream_Seek 0 SeekEnd stream1 = ((totalStreamLen, e2), stream2)"
      and restore: "stream_Seek currentPos SeekStart stream2 = ((pos3, e3), stream3)"
  shows
   "(e1 = None \<and> e2 = None \<and> e3 = None \<longrightarrow>
       ContextResponse_StreamReadSeeker go code stream c =
         ContextResponse_Stream code stream3
           (ContextResponse_Header_Set ''Content-Length''
              (strconv_FormatInt10 (totalStreamLen - currentPos)) c)
       \<and> ContextResponse_Header (snd (snd (ContextResponse_StreamReadSeeker go code stream c))) =
           (ContextResponse_Header c)(''Content-Length'' \<mapsto>
              [strconv_FormatInt10 (totalStreamLen - currentPos)])
       \<and> sink_calls (rl_b (Log (snd (snd (ContextResponse_StreamReadSeeker go code stream c))))) =
           sink_calls (rl_b (Log c))
       \<and> (0 \<le> sint currentPos \<and> 0 \<le> sint totalStreamLen \<longrightarrow>
            sint (totalStreamLen - currentPos) = sint totalStreamLen - sint currentPos))
    \<and> (\<forall>e. e1 = Some e \<longrightarrow>
       ContextResponse_StreamReadSeeker go code stream c =
         ContextResponse_Stream code stream1
           (c\<lparr>Log := RequestLogger_Info
                (RequestLogger_Warningf go (Log c)
                   ''Unable to determine current stream position: %v'' [V_error e])
                ''Falling back to chunked streaming''\<rparr>)
       \<and> ContextResponse_Header (snd (snd (ContextResponse_StreamReadSeeker go code stream c))) =
           ContextResponse_Header c
       \<and> sink_calls (rl_b (Log (snd (snd (ContextResponse_StreamReadSeeker go code stream c))))) =
           sink_calls (rl_b (Log c)) @
             [Call_Warning (fmt_Sprintf go ''Unable to determine current stream position: %v'' [V_error e]),
              Call_Info ''Falling back to chunked streaming''])
    \<and> (\<forall>e. e1 = None \<and> e2 = Some e \<longrightarrow>
       ContextResponse_StreamReadSeeker go code stream c =
         ContextResponse_Stream code stream2
           (c\<lparr>Log := RequestLogger_Info
                (RequestLogger_Warningf go (Log c)
                   ''Unable to determine total stream length: %v'' [V_error e])
                ''Falling back to chunked streaming''\<rparr>)
       \<and> ContextResponse_Header (snd (snd (ContextResponse_StreamReadSeeker go code stream c))) =
           ContextResponse_Header c
       \<and> sink_calls (rl_b (Log (snd (snd (ContextResponse_StreamReadSeeker go code stream c))))) =
           sink_calls (rl_b (Log c)) @
             [Call_Warning (fmt_Sprintf go ''Unable to determine total stream length: %v'' [V_error e]),
              Call_Info ''Falling back to chunked streaming''])
    \<and> (\<forall>e. e1 = None \<and> e2 = None \<and> e3 = Some e \<longrightarrow>
       fst (ContextResponse_StreamReadSeeker go code stream c) =
         Some (ErrorString ''failed to safely determine stream length - aborting'')
       \<and> Response_rw (snd (snd (ContextResponse_StreamReadSeeker go code stream c))) = Response_rw c
       \<and> sink_calls (rl_b (Log (snd (snd (ContextResponse_StreamReadSeeker go code stream c))))) =
           sink_calls (rl_b (Log c)) @
             [Call_Error (fmt_Sprintf go ''Unable to restore stream position after reading length: %v''
                [V_error e])])"
proof -
  have ok: "e1 = None \<Longrightarrow> e2 = None \<Longrightarrow> e3 = None \<Longrightarrow>
       ContextResponse_StreamReadSeeker go code stream c =
         ContextResponse_Stream code stream3
           (ContextResponse_Header_Set ''Content-Length''
              (strconv_FormatInt10 (totalStreamLen - currentPos)) c)"
    using cur tot restore by (simp add: ContextResponse_StreamReadSeeker_def)
  have f1: "e1 = Some e \<Longrightarrow>
       ContextResponse_StreamReadSeeker go code stream c =
         ContextResponse_Stream code stream1
           (c\<lparr>Log := RequestLogger_Info
                (RequestLogger_Warningf go (Log c)
                   ''Unable to determine current stream position: %v'' [V_error e])
                ''Falling back to chunked streaming''\<rparr>)" for e
    using cur by (simp add: ContextResponse_StreamReadSeeker_def Let_def)
  have f2: "e1 = None \<Longrightarrow> e2 = Some e \<Longrightarrow>
       ContextResponse_StreamReadSeeker go code stream c =
         ContextResponse_Stream code stream2
           (c\<lparr>Log := RequestLogger_Info
                (RequestLogger_Warningf go (Log c)
                   ''Unable to determine total stream length: %v'' [V_error e])
                ''Falling back to chunked streaming''\<rparr>)" for e
    using cur tot by (simp add: ContextResponse_StreamReadSeeker_def Let_def)
  have f3: "e1 = None \<Longrightarrow> e2 = None \<Longrightarrow> e3 = Some e \<Longrightarrow>
       ContextResponse_StreamReadSeeker go code stream c =
         (Some (ErrorString ''failed to safely determine stream length - aborting''), stream3,
          c\<lparr>Log := RequestLogger_Errorf go (Log c)
                ''Unable to restore stream position after reading length: %v'' [V_error e]\<rparr>)" for e
    using cur tot restore by (simp add: ContextResponse_StreamReadSeeker_def Let_def)
  show ?thesis
    by (auto simp: ok f1 f2 f3 Stream_observed Header_observed Info_calls Warningf_calls
          Errorf_calls sint_sub_no_overflow)
qed

lemma seek_cur_example:
  "stream_Seek 0 SeekCurrent (stream_example e1 e2 e3) =
     ((2, e1), (stream_example e1 e2 e3)\<lparr>rs_seeks := [(0, SeekCurrent)]\<rparr>)"
  by (simp add: stream_Seek_def stream_example_def)

lemma seek_end_example:
  "stream_Seek 0 SeekEnd ((stream_example e1 e2 e3)\<lparr>rs_seeks := [(0, SeekCurrent)]\<rparr>) =
     ((5, e2), (stream_example e1 e2 e3)\<lparr>rs_seeks := [(0, SeekCurrent), (0, SeekEnd)]\<rparr>)"
  by (simp add: stream_Seek_def stream_example_def)

lemma seek_back_example:
  "stream_Seek 2 SeekStart ((stream_example e1 e2 e3)\<lparr>rs_seeks := [(0, SeekCurrent), (0, SeekEnd)]\<rparr>) =
     ((2, e3),
      (stream_example e1 e2 e3)\<lparr>rs_seeks := [(0, SeekCurrent), (0, SeekEnd), (2, SeekStart)]\<rparr>)"
  by (simp add: stream_Seek_def stream_example_def)

lemma Stream_example:
  assumes "rw_Write_result (lrw_rw (Response_rw c)) = (\<lambda>h calls bs. (go_len bs, None))"
  shows "rw_calls (lrw_rw (Response_rw (snd (snd (ContextResponse_Stream 200
            ((stream_example e1 e2 e3)\<lparr>rs_seeks := ss\<rparr>) c))))) =
         rw_calls (lrw_rw (Response_rw c)) @ [Call_WriteHeader 200, Call_Write ''cd'', Call_Write ''e'']"
    and "fst (ContextResponse_Stream 200 ((stream_example e1 e2 e3)\<lparr>rs_seeks := ss\<rparr>) c) = None"
  using assms
  by (simp_all add: ContextResponse_Stream_def io_Copy_def stream_example_def rw_WriteHeader_def
         loggingResponseWriter_Write_def loggingResponseWriter_WriteHeader_def raw_Write_def
         raw_WriteHeader_def go_len_def Let_def)

lemma context_of_writer_ok:
  "rw_Write_result (lrw_rw (Response_rw (ContextResponse_Header_Set k v (context_of writer_ok)))) =
     (\<lambda>h calls bs. (go_len bs, None))"
  "rw_Write_result (lrw_rw (Response_rw ((context_of writer_ok)\<lparr>Log := l\<rparr>))) =
     (\<lambda>h calls bs. (go_len bs, None))"
  "rw_Write_result (lrw_rw (Response_rw (context_of writer_ok))) = (\<lambda>h calls bs. (go_len bs, None))"
  "rw_calls (lrw_rw (Response_rw (ContextResponse_Header_Set k v (context_of writer_ok)))) = []"
  "rw_calls (lrw_rw (Response_rw (context_of writer_ok))) = []"
  "rw_header writer_ok = Map.empty"
  "sink_calls (rl_b (Log (context_of writer_ok))) = []"
  by (simp_all add: ContextResponse_Header_Set_def context_of_def writer_ok_def
        new_loggingResponseWriter_def sink_tagging_def)

theorem C4_StreamReadSeeker_witness:
  "ContextResponse_Header (snd (snd (ContextResponse_StreamReadSeeker go_default 200
       (stream_example None None None) (context_of writer_ok)))) ''Content-Length'' = Some [''3'']
   \<and> rw_calls (lrw_rw (Response_rw (snd (snd (ContextResponse_StreamReadSeeker go_default 200
       (stream_example None None None) (context_of writer_ok)))))) =
       [Call_WriteHeader 200, Call_Write ''cd'', Call_Write ''e'']
   \<and> fst (ContextResponse_StreamReadSeeker go_default 200
       (stream_example None None None) (context_of writer_ok)) = None
   \<and> ContextResponse_Header (snd (snd (ContextResponse_StreamReadSeeker go_default 200
       (stream_example (Some no_seek) None None) (context_of writer_ok)))) ''Content-Length'' = None
   \<and> sink_calls (rl_b (Log (snd (snd (ContextResponse_StreamReadSeeker go_default 200
       (stream_example (Some no_seek) None None) (context_of writer_ok)))))) =
       [Call_Warning ''Unable to determine current stream position: no seek'',
        Call_Info ''Falling back to chunked streaming'']
   \<and> rw_calls (lrw_rw (Response_rw (snd (snd (ContextResponse_StreamReadSeeker go_default 200
       (stream_example (Some no_seek) None None) (context_of writer_ok)))))) =
       [Call_WriteHeader 200, Call_Write ''cd'', Call_Write ''e'']
   \<and> ContextResponse_Header (snd (snd (ContextResponse_StreamReadSeeker go_default 200
       (stream_example None (Some no_seek) None) (context_of writer_ok)))) ''Content-Length'' = None
   \<and> sink_calls (rl_b (Log (snd (snd (ContextResponse_StreamReadSeeker go_default 200
       (stream_example None (Some no_seek) None) (context_of writer_ok)))))) =
       [Call_Warning ''Unable to determine total stream length: no seek'',
        Call_Info ''Falling back to chunked streaming'']
   \<and> fst (ContextResponse_StreamReadSeeker go_default 200
       (stream_example None None (Some no_seek)) (context_of writer_ok)) =
       Some (ErrorString ''failed to safely determine stream length - aborting'')
   \<and> rw_calls (lrw_rw (Response_rw (snd (snd (ContextResponse_StreamReadSeeker go_default 200
       (stream_example None None (Some no_seek)) (context_of writer_ok)))))) = []
   \<and> sink_calls (rl_b (Log (snd (snd (ContextResponse_StreamReadSeeker go_default 200
       (stream_example None None (Some no_seek)) (context_of writer_ok)))))) =
       [Call_Error ''Unable to restore stream position after reading length: no seek'']"
proof -
  note a = C4_StreamReadSeeker [OF seek_cur_example seek_end_example seek_back_example,
      of None None None go_default 200 "context_of writer_ok"]
  note b = C4_StreamReadSeeker [OF seek_cur_example seek_end_example seek_back_example,
      of "Some no_seek" None None go_default 200 "context_of writer_ok"]
  note c = C4_StreamReadSeeker [OF seek_cur_example seek_end_example seek_back_example,
      of None "Some no_seek" None go_default 200 "context_of writer_ok"]
  note d = C4_StreamReadSeeker [OF seek_cur_example seek_end_example seek_back_example,
      of None None "Some no_seek" go_default 200 "context_of writer_ok"]
  note w = context_of_writer_ok
  have f: "fmt_Sprintf go_default = Sprintf_v" by (simp add: go_default_def)
  have t: "Error_text no_seek = ''no seek''" by (simp add: no_seek_def)
  have n: "strconv_FormatInt10 3 = ''3''"
    by (simp add: strconv_FormatInt10_def decimal.simps)
  have s1: "ContextResponse_StreamReadSeeker go_default 200 (stream_example None None None)
        (context_of writer_ok) =
      ContextResponse_Stream 200
        ((stream_example None None None)\<lparr>rs_seeks := [(0, SeekCurrent), (0, SeekEnd), (2, SeekStart)]\<rparr>)
        (ContextResponse_Header_Set ''Content-Length'' ''3'' (context_of writer_ok))"
    using a by (simp add: n)
  have s2: "ContextResponse_StreamReadSeeker go_default 200 (stream_example (Some no_seek) None None)
        (context_of writer_ok) =
      ContextResponse_Stream 200 ((stream_example (Some no_seek) None None)\<lparr>rs_seeks := [(0, SeekCurrent)]\<rparr>)
       ((context_of writer_ok)\<lparr>Log := RequestLogger_Info
            (RequestLogger_Warningf go_default (Log (context_of writer_ok))
              ''Unable to determine current stream position: %v'' [V_error no_seek])
            ''Falling back to chunked streaming''\<rparr>)"
    using b by simp
  have s3: "ContextResponse_StreamReadSeeker go_default 200 (stream_example None (Some no_seek) None)
        (context_of writer_ok) =
      ContextResponse_Stream 200
       ((stream_example None (Some no_seek) None)\<lparr>rs_seeks := [(0, SeekCurrent), (0, SeekEnd)]\<rparr>)
       ((context_of writer_ok)\<lparr>Log := RequestLogger_Info
            (RequestLogger_Warningf go_default (Log (context_of writer_ok))
              ''Unable to determine total stream length: %v'' [V_error no_seek])
            ''Falling back to chunked streaming''\<rparr>)"
    using c by simp
  have p1: "ContextResponse_Header (snd (snd (ContextResponse_StreamReadSeeker go_default 200
       (stream_example None None None) (context_of writer_ok)))) ''Content-Length'' = Some [''3'']"
    by (simp add: s1 Stream_observed Header_observed)
  have p2: "rw_calls (lrw_rw (Response_rw (snd (snd (ContextResponse_StreamReadSeeker go_default 200
       (stream_example None None None) (context_of writer_ok)))))) =
       [Call_WriteHeader 200, Call_Write ''cd'', Call_Write ''e'']"
    by (simp add: s1 Stream_example w)
  have p3: "fst (ContextResponse_StreamReadSeeker go_default 200
       (stream_example None None None) (context_of writer_ok)) = None"
    by (simp add: s1 Stream_example w)
  have p4: "ContextResponse_Header (snd (snd (ContextResponse_StreamReadSeeker go_default 200
       (stream_example (Some no_seek) None None) (context_of writer_ok)))) ''Content-Length'' = None"
    by (simp add: s2 Stream_observed Header_observed w)
  have p5: "sink_calls (rl_b (Log (snd (snd (ContextResponse_StreamReadSeeker go_default 200
       (stream_example (Some no_seek) None None) (context_of writer_ok)))))) =
       [Call_Warning ''Unable to determine current stream position: no seek'',
        Call_Info ''Falling back to chunked streaming'']"
    by (simp add: s2 Stream_observed w f t Info_calls Warningf_calls)
  have p6: "rw_calls (lrw_rw (Response_rw (snd (snd (ContextResponse_StreamReadSeeker go_default 200
       (stream_example (Some no_seek) None None) (context_of writer_ok)))))) =
       [Call_WriteHeader 200, Call_Write ''cd'', Call_Write ''e'']"
    by (simp add: s2 Stream_example w)
  have p7: "ContextResponse_Header (snd (snd (ContextResponse_StreamReadSeeker go_default 200
       (stream_example None (Some no_seek) None) (context_of writer_ok)))) ''Content-Length'' = None"
    by (simp add: s3 Stream_observed Header_observed w)
  have p8: "sink_calls (rl_b (Log (snd (snd (ContextResponse_StreamReadSeeker go_default 200
       (stream_example None (Some no_seek) None) (context_of writer_ok)))))) =
       [Call_Warning ''Unable to determine total stream length: no seek'',
        Call_Info ''Falling back to chunked streaming'']"
    by (simp add: s3 Stream_observed w f t Info_calls Warningf_calls)
  have p9: "fst (ContextResponse_StreamReadSeeker go_default 200
       (stream_example None None (Some no_seek)) (context_of writer_ok)) =
       Some (ErrorString ''failed to safely determine stream length - aborting'')
   \<and> rw_calls (lrw_rw (Response_rw (snd (snd (ContextResponse_StreamReadSeeker go_default 200
       (stream_example None None (Some no_seek)) (context_of writer_ok)))))) = []
   \<and> sink_calls (rl_b (Log (snd (snd (ContextResponse_StreamReadSeeker go_default 200
       (stream_example None None (Some no_seek)) (context_of writer_ok)))))) =
       [Call_Error ''Unable to restore stream position after reading length: no seek'']"
    using d by (simp add: w f t)
  show ?thesis
    using p1 p2 p3 p4 p5 p6 p7 p8 p9 by blast
qed

section \<open>Properties of the request lifecycle\<close>

lemma handlerShim_closure_eq:
  "handlerShim_closure go h w rw req p =
     (let (err, c1) = h (request_Context w rw req p);
          c2 = (case err of
                  Some e \<Rightarrow> c1\<lparr>Log := RequestLogger_Errorf go (Log c1)
                                 ''Error returned from request handler: %v'' [V_error e]\<rparr>
                | None \<Rightarrow> c1);
          c3 = (if statusCode (Response_rw c2) = 0
                then c2\<lparr>Log := RequestLogger_WTF go (Log c2) ''Handler didn't write a response''\<rparr>
                else c2)
      in c3\<lparr>Log := (Log c3)\<lparr>rl_b := base_WriteLogs (rl_b (Log c3))\<rparr>\<rparr>)"
  by (simp add: handlerShim_closure_def request_Context_def Let_def)

lemma lifecycle_calls:
  assumes ret: "h (request_Context w rw req p) = (err, c1)"
  shows "sink_calls (rl_b (Log (handlerShim_closure go h w rw req p))) =
       sink_calls (rl_b (Log c1)) @
       (case err of None \<Rightarrow> []
        | Some e \<Rightarrow> [Call_Error (fmt_Sprintf go ''Error returned from request handler: %v'' [V_error e])]) @
       (if statusCode (Response_rw c1) = 0
        then [Call_WTF ''Handler didn't write a response'',
              Call_WTF (''Stack Trace:'' @ [CHR 0x0A] @ take 100000 (runtime_stack_text go))]
        else []) @
       [Call_WriteLogs]"
    and "Response_rw (handlerShim_closure go h w rw req p) = Response_rw c1"
  using ret
  by (cases err; simp add: handlerShim_closure_eq Let_def base_WriteLogs_def Errorf_calls WTF_calls)+

lemma request_Context_example:
  "request_Context world_example writer_ok request_get [] = context_of writer_ok"
  by (simp add: request_Context_def world_example_def context_of_def new_loggingResponseWriter_def)

text \<open>
  Claim C2. Let the composed handler return \<open>err\<close> and leave the request's objects in
  the state \<open>c1\<close>. Then the calls that the shim makes on the sink after that are, in this
  order: one \<^verbatim>\<open>Error\<close> with the formatted error when \<open>err\<close> is not nil; the two calls of
  \<^verbatim>\<open>WTF("Handler didn't write a response")\<close> (the message and its stack trace) when the
  tracked status is 0; and \<^verbatim>\<open>WriteLogs\<close>. So \<^verbatim>\<open>WriteLogs\<close> is the last call, is made exactly
  once and in each of the four cases; there is exactly one \<^verbatim>\<open>Error\<close> call when \<open>err\<close> is
  not nil and none otherwise; there is exactly one fatal-bug call with that message when
  the status is 0 and none otherwise. The error goes nowhere else: the handle returns
  nothing, and the response writer is left as the handler left it.
\<close>

theorem C2_lifecycle_postconditions:
  assumes ret: "h (request_Context w rw req p) = (err, c1)"
  shows "sink_calls (rl_b (Log (handlerShim_closure go h w rw req p))) =
       sink_calls (rl_b (Log c1)) @
       (case err of None \<Rightarrow> []
        | Some e \<Rightarrow> [Call_Error (fmt_Sprintf go ''Error returned from request handler: %v'' [V_error e])]) @
       (if statusCode (Response_rw c1) = 0
        then [Call_WTF ''Handler didn't write a response'',
              Call_WTF (''Stack Trace:'' @ [CHR 0x0A] @ take 100000 (runtime_stack_text go))]
        else []) @
       [Call_WriteLogs]
     \<and> Response_rw (handlerShim_closure go h w rw req p) = Response_rw c1
     \<and> (let emitted = drop (length (sink_calls (rl_b (Log c1))))
                         (sink_calls (rl_b (Log (handlerShim_closure go h w rw req p))))
        in last emitted = Call_WriteLogs
         \<and> count_list emitted Call_WriteLogs = 1
         \<and> length (filter (\<lambda>x. case x of Call_Error m \<Rightarrow> True | _ \<Rightarrow> False) emitted) =
             (if err = None then 0 else 1)
         \<and> count_list emitted (Call_WTF ''Handler didn't write a response'') =
             (if statusCode (Response_rw c1) = 0 then 1 else 0))"
  unfolding lifecycle_calls [of h w rw req p err c1 go, OF ret] by (cases err) (simp_all add: Let_def)

theorem C2_lifecycle_witness:
  "sink_calls (rl_b (Log (handlerShim_closure go_default handler_fails world_example
       writer_ok request_get []))) =
     [Call_Error ''Error returned from request handler: boom'',
      Call_WTF ''Handler didn't write a response'',
      Call_WTF (''Stack Trace:'' @ [CHR 0x0A] @ ''goroutine 1 [running]:''),
      Call_WriteLogs]
   \<and> rw_calls (lrw_rw (Response_rw (handlerShim_closure go_default handler_fails world_example
       writer_ok request_get []))) = []
   \<and> sink_calls (rl_b (Log (handlerShim_closure go_default handler_no_content world_example
       writer_ok request_get []))) = [Call_WriteLogs]
   \<and> sink_calls (rl_b (Log (handlerShim_closure go_default handler_answers_then_fails world_example
       writer_ok request_get []))) =
     [Call_Error ''Error returned from request handler: boom'', Call_WriteLogs]"
proof -
  have a: "handler_fails (request_Context world_example writer_ok request_get []) =
      (Some (ErrorString ''boom''), context_of writer_ok)"
    by (simp add: handler_fails_def request_Context_example)
  have b: "handler_no_content (request_Context world_example writer_ok request_get []) =
      (None, snd (ContextResponse_Status 204 (context_of writer_ok)))"
    by (simp add: handler_no_content_def request_Context_example ContextResponse_Status_def)
  have c: "handler_answers_then_fails (request_Context world_example writer_ok request_get []) =
      (Some (ErrorString ''boom''), snd (ContextResponse_String 200 ''ok'' (context_of writer_ok)))"
    by (simp add: handler_answers_then_fails_def request_Context_example)
  have s: "statusCode (Response_rw (context_of writer_ok)) = 0"
    "sink_calls (rl_b (Log (context_of writer_ok))) = []"
    "rw_calls (lrw_rw (Response_rw (context_of writer_ok))) = []"
    "statusCode (Response_rw (snd (ContextResponse_Status 204 (context_of writer_ok)))) = 204"
    "sink_calls (rl_b (Log (snd (ContextResponse_Status 204 (context_of writer_ok))))) = []"
    "statusCode (Response_rw (snd (ContextResponse_String 200 ''ok'' (context_of writer_ok)))) = 200"
    "sink_calls (rl_b (Log (snd (ContextResponse_String 200 ''ok'' (context_of writer_ok))))) = []"
    by (simp_all add: context_of_def new_loggingResponseWriter_def sink_tagging_def writer_ok_def
          ContextResponse_Status_def response_defs Header_Get_def Let_def)
  have g: "fmt_Sprintf go_default = Sprintf_v"
    "runtime_stack_text go_default = ''goroutine 1 [running]:''"
    by (simp_all add: go_default_def)
  show ?thesis
    using C2_lifecycle_postconditions [of handler_fails world_example writer_ok request_get "[]"
          "Some (ErrorString ''boom'')" "context_of writer_ok" go_default, OF a]
      C2_lifecycle_postconditions [of handler_no_content world_example writer_ok request_get "[]"
          None "snd (ContextResponse_Status 204 (context_of writer_ok))" go_default, OF b]
      C2_lifecycle_postconditions [of handler_answers_then_fails world_example writer_ok request_get "[]"
          "Some (ErrorString ''boom'')" "snd (ContextResponse_String 200 ''ok'' (context_of writer_ok))"
          go_default, OF c]
    by (simp add: s g)
qed

text \<open>
  Claim C10. For every classic middleware \<open>cm\<close>, inner handler \<open>n\<close> and context:
  the handler that \<^verbatim>\<open>ClassicMiddlewareShim\<close> builds returns nil, whatever \<open>n\<close> returns; its
  effect is that of the classic handler \<open>cm next\<close>, where \<open>next\<close> runs \<open>n\<close> on the context
  of the request, whatever writer and request it is called with, and drops the error of
  \<open>n\<close>; so with a classic middleware that calls \<open>next\<close> once, with a writer and a
  request of its own, the effect is that of \<open>n\<close> on the context and the result is nil.
  In the lifecycle, the shim then makes no \<^verbatim>\<open>Error\<close> call on the sink: after the handler
  there are only the fatal-bug calls (when no status was written) and \<^verbatim>\<open>WriteLogs\<close>.
\<close>

theorem C10_ClassicMiddlewareShim_swallows_errors:
  "fst (ClassicMiddlewareShim cm n c) = None
   \<and> snd (ClassicMiddlewareShim cm n c) =
       cm (\<lambda>w' r' c'. snd (n c')) Tracker_ref (cr_req (Request c)) c
   \<and> ClassicMiddlewareShim (\<lambda>next w r. next w' r') n c = (None, snd (n c))
   \<and> sink_calls (rl_b (Log (handlerShim_closure go (ClassicMiddlewareShim cm n) w rw req p))) =
       sink_calls (rl_b (Log (snd (ClassicMiddlewareShim cm n (request_Context w rw req p))))) @
       (if statusCode (Response_rw (snd (ClassicMiddlewareShim cm n (request_Context w rw req p)))) = 0
        then [Call_WTF ''Handler didn't write a response'',
              Call_WTF (''Stack Trace:'' @ [CHR 0x0A] @ take 100000 (runtime_stack_text go))]
        else []) @
       [Call_WriteLogs]"
proof -
  have r: "ClassicMiddlewareShim cm n (request_Context w rw req p) =
      (None, snd (ClassicMiddlewareShim cm n (request_Context w rw req p)))"
    by (simp add: ClassicMiddlewareShim_def ClassicHandlerShim_def)
  show ?thesis
    using lifecycle_calls(1) [of "ClassicMiddlewareShim cm n" w rw req p None
        "snd (ClassicMiddlewareShim cm n (request_Context w rw req p))" go, OF r]
    by (simp add: ClassicMiddlewareShim_def ClassicHandlerShim_def)
qed

theorem C10_ClassicMiddlewareShim_witness:
  "fst (handler_answers_then_fails (context_of writer_ok)) = Some (ErrorString ''boom'')
   \<and> ClassicMiddlewareShim classic_wrapping handler_answers_then_fails (context_of writer_ok) =
       (None, snd (handler_answers_then_fails (context_of writer_ok)))
   \<and> sink_calls (rl_b (Log (handlerShim_closure go_default
       (ClassicMiddlewareShim classic_wrapping handler_answers_then_fails) world_example
       writer_ok request_get []))) = [Call_WriteLogs]"
proof -
  have e: "ClassicMiddlewareShim classic_wrapping handler_answers_then_fails (context_of writer_ok) =
       (None, snd (handler_answers_then_fails (context_of writer_ok)))"
    by (simp add: ClassicMiddlewareShim_def ClassicHandlerShim_def classic_wrapping_def)
  have s: "statusCode (Response_rw (snd (handler_answers_then_fails (context_of writer_ok)))) = 200"
    "sink_calls (rl_b (Log (snd (handler_answers_then_fails (context_of writer_ok))))) = []"
    by (simp_all add: handler_answers_then_fails_def context_of_def new_loggingResponseWriter_def
          sink_tagging_def writer_ok_def response_defs Header_Get_def Let_def)
  have f: "fst (handler_answers_then_fails (context_of writer_ok)) = Some (ErrorString ''boom'')"
    by (simp add: handler_answers_then_fails_def)
  note T = C10_ClassicMiddlewareShim_swallows_errors [of classic_wrapping handler_answers_then_fails
        "context_of writer_ok" "Other_ref 1" "request_get" go_default world_example writer_ok
        request_get "[]"]
  from T have "sink_calls (rl_b (Log (handlerShim_closure go_default
       (ClassicMiddlewareShim classic_wrapping handler_answers_then_fails) world_example
       writer_ok request_get []))) =
       sink_calls (rl_b (Log (snd (ClassicMiddlewareShim classic_wrapping handler_answers_then_fails
          (request_Context world_example writer_ok request_get []))))) @
       (if statusCode (Response_rw (snd (ClassicMiddlewareShim classic_wrapping
            handler_answers_then_fails (request_Context world_example writer_ok request_get [])))) = 0
        then [Call_WTF ''Handler didn't write a response'',
              Call_WTF (''Stack Trace:'' @ [CHR 0x0A] @ take 100000 (runtime_stack_text go_default))]
        else []) @
       [Call_WriteLogs]"
    by blast
  then have "sink_calls (rl_b (Log (handlerShim_closure go_default
       (ClassicMiddlewareShim classic_wrapping handler_answers_then_fails) world_example
       writer_ok request_get []))) = [Call_WriteLogs]"
    by (simp add: request_Context_example e s)
  with e f show ?thesis by blast
qed

section \<open>Properties of handler groups\<close>

text \<open>
  The well-formedness of a world, by index: every group's slice lies within its array,
  and two groups never have the same array.
\<close>

lemma wf_World_iff:
  "wf_World w \<longleftrightarrow>
     (\<forall>g < length (groups w). wf_slice w (middlewareList (groups w ! g))) \<and>
     (\<forall>g < length (groups w). \<forall>g' < length (groups w).
         g \<noteq> g' \<longrightarrow> slice_ptr (middlewareList (groups w ! g)) \<noteq> slice_ptr (middlewareList (groups w ! g')))"
  by (auto simp: wf_World_def list_all_length distinct_conv_nth)

lemma wf_NewServer: "wf_World (world (NewServer nrl))"
  by (simp add: wf_World_def NewServer_def)

lemma group_middleware_length:
  "wf_slice w (middlewareList (groups w ! g)) \<Longrightarrow>
     length (group_middleware w g) = slice_len (middlewareList (groups w ! g))"
  by (simp add: group_middleware_def slice_elems_def wf_slice_def)

lemma AddMiddleware_step:
  assumes wf: "wf_World w" and hg: "hg < length (groups w)"
  shows "wf_World (HandlerGroup_AddMiddleware go hg m w)"
    and "length (groups (HandlerGroup_AddMiddleware go hg m w)) = length (groups w)"
    and "server (HandlerGroup_AddMiddleware go hg m w) = server w"
    and "g < length (groups w) \<Longrightarrow>
           group_middleware (HandlerGroup_AddMiddleware go hg m w) g =
             (if g = hg then group_middleware w g @ m else group_middleware w g)"
    and "g < length (groups w) \<Longrightarrow>
           basePath (groups (HandlerGroup_AddMiddleware go hg m w) ! g) = basePath (groups w ! g)"
proof -
  let ?s = "middlewareList (groups w ! hg)"
  let ?need = "slice_len ?s + length m"
  from wf have sl: "\<And>g. g < length (groups w) \<Longrightarrow> wf_slice w (middlewareList (groups w ! g))"
    and ne: "\<And>g g'. g < length (groups w) \<Longrightarrow> g' < length (groups w) \<Longrightarrow> g \<noteq> g' \<Longrightarrow>
       slice_ptr (middlewareList (groups w ! g)) \<noteq> slice_ptr (middlewareList (groups w ! g'))"
    by (simp_all add: wf_World_iff)
  note s = sl [OF hg]
  show "length (groups (HandlerGroup_AddMiddleware go hg m w)) = length (groups w)"
    by (simp add: HandlerGroup_AddMiddleware_def go_append_def Let_def)
  show "server (HandlerGroup_AddMiddleware go hg m w) = server w"
    by (simp add: HandlerGroup_AddMiddleware_def go_append_def Let_def)
  show "g < length (groups w) \<Longrightarrow>
           basePath (groups (HandlerGroup_AddMiddleware go hg m w) ! g) = basePath (groups w ! g)"
    by (cases "g = hg") (simp_all add: HandlerGroup_AddMiddleware_def go_append_def Let_def)
  show "g < length (groups w) \<Longrightarrow>
           group_middleware (HandlerGroup_AddMiddleware go hg m w) g =
             (if g = hg then group_middleware w g @ m else group_middleware w g)"
  proof -
    assume g: "g < length (groups w)"
    show ?thesis
    proof (cases "g = hg")
      case True
      with s hg show ?thesis
        by (auto simp: HandlerGroup_AddMiddleware_def go_append_def Let_def group_middleware_def
              slice_elems_def wf_slice_def)
    next
      case False
      from ne [OF g hg False] sl [OF g] s hg g False show ?thesis
        by (auto simp: HandlerGroup_AddMiddleware_def go_append_def Let_def group_middleware_def
              slice_elems_def wf_slice_def nth_append)
    qed
  qed
  show "wf_World (HandlerGroup_AddMiddleware go hg m w)"
  proof (cases "?need \<le> slice_cap ?s")
    case True
    let ?a = "take (slice_len ?s) (arrays w ! slice_ptr ?s) @ m @ drop ?need (arrays w ! slice_ptr ?s)"
    let ?w' = "w\<lparr>arrays := (arrays w)[slice_ptr ?s := ?a],
          groups := (groups w)[hg := (groups w ! hg)\<lparr>middlewareList := ?s\<lparr>slice_len := ?need\<rparr>\<rparr>]\<rparr>"
    from True have w': "HandlerGroup_AddMiddleware go hg m w = ?w'"
      by (simp add: HandlerGroup_AddMiddleware_def go_append_def Let_def)
    have la: "length ?a = slice_cap ?s"
      using True s by (simp add: wf_slice_def)
    have ptr: "slice_ptr (middlewareList (groups ?w' ! g)) = slice_ptr (middlewareList (groups w ! g))"
      if "g < length (groups w)" for g
      using that by (cases "g = hg") simp_all
    have "wf_slice ?w' (middlewareList (groups ?w' ! g))" if g: "g < length (groups w)" for g
    proof (cases "g = hg")
      case True
      with s hg la \<open>?need \<le> slice_cap ?s\<close> show ?thesis by (simp add: wf_slice_def)
    next
      case False
      with sl [OF g] ne [OF g hg] hg show ?thesis by (simp add: wf_slice_def)
    qed
    moreover have "slice_ptr (middlewareList (groups ?w' ! g)) \<noteq> slice_ptr (middlewareList (groups ?w' ! g'))"
      if "g < length (groups w)" "g' < length (groups w)" "g \<noteq> g'" for g g'
      using that ne [OF that] ptr [of g] ptr [of g'] by simp
    ultimately show ?thesis
      unfolding w' wf_World_iff by simp
  next
    case False
    let ?newcap = "max ?need (runtime_growslice go (slice_cap ?s) ?need)"
    let ?a = "slice_elems w ?s @ m @ replicate (?newcap - ?need) None"
    let ?w' = "w\<lparr>arrays := arrays w @ [?a],
          groups := (groups w)[hg := (groups w ! hg)\<lparr>middlewareList :=
             \<lparr>slice_ptr = length (arrays w), slice_len = ?need, slice_cap = ?newcap\<rparr>\<rparr>]\<rparr>"
    from False have w': "HandlerGroup_AddMiddleware go hg m w = ?w'"
      by (simp add: HandlerGroup_AddMiddleware_def go_append_def Let_def)
    have lt: "slice_ptr (middlewareList (groups w ! g)) < length (arrays w)"
      if "g < length (groups w)" for g
      using sl [OF that] by (simp add: wf_slice_def)
    have la: "length ?a = ?newcap"
      using s by (simp add: slice_elems_def wf_slice_def)
    have ptr: "slice_ptr (middlewareList (groups ?w' ! g)) =
        (if g = hg then length (arrays w) else slice_ptr (middlewareList (groups w ! g)))"
      if "g < length (groups w)" for g
      using that by (cases "g = hg") simp_all
    have "wf_slice ?w' (middlewareList (groups ?w' ! g))" if g: "g < length (groups w)" for g
    proof (cases "g = hg")
      case True
      with hg la show ?thesis by (simp add: wf_slice_def)
    next
      case False
      with sl [OF g] lt [OF g] hg show ?thesis by (simp add: wf_slice_def nth_append)
    qed
    moreover have "slice_ptr (middlewareList (groups ?w' ! g)) \<noteq> slice_ptr (middlewareList (groups ?w' ! g'))"
      if "g < length (groups w)" "g' < length (groups w)" "g \<noteq> g'" for g g'
      using that ne [OF that] lt [of g] lt [of g'] ptr [of g] ptr [of g'] by (simp split: if_splits)
    ultimately show ?thesis
      unfolding w' wf_World_iff by simp
  qed
qed


lemma GetHandlerGroup_eq:
  assumes wf: "wf_World w" and P: "P < length (groups w)"
  shows "HandlerGroup_GetHandlerGroup P sub w =
     (length (groups w),
      w\<lparr>arrays := arrays w @ [group_middleware w P],
        groups := groups w @
          [\<lparr>parent = Some P,
            middlewareList = \<lparr>slice_ptr = length (arrays w),
                              slice_len = slice_len (middlewareList (groups w ! P)),
                              slice_cap = slice_len (middlewareList (groups w ! P))\<rparr>,
            basePath = basePath (groups w ! P) @ sub\<rparr>]\<rparr>)"
proof -
  from wf P have s: "wf_slice w (middlewareList (groups w ! P))"
    by (simp add: wf_World_iff)
  then show ?thesis
    using P
    by (simp add: HandlerGroup_GetHandlerGroup_def go_make_def go_copy_def Let_def nth_append
          group_middleware_def slice_elems_def wf_slice_def)
qed

lemma GetHandlerGroup_step:
  assumes wf: "wf_World w" and P: "P < length (groups w)"
  shows "fst (HandlerGroup_GetHandlerGroup P sub w) = length (groups w)"
    and "length (groups (snd (HandlerGroup_GetHandlerGroup P sub w))) = Suc (length (groups w))"
    and "wf_World (snd (HandlerGroup_GetHandlerGroup P sub w))"
    and "server (snd (HandlerGroup_GetHandlerGroup P sub w)) = server w"
    and "g < length (groups w) \<Longrightarrow>
           group_middleware (snd (HandlerGroup_GetHandlerGroup P sub w)) g = group_middleware w g"
    and "g < length (groups w) \<Longrightarrow>
           groups (snd (HandlerGroup_GetHandlerGroup P sub w)) ! g = groups w ! g"
    and "group_middleware (snd (HandlerGroup_GetHandlerGroup P sub w)) (length (groups w)) =
           group_middleware w P"
    and "basePath (groups (snd (HandlerGroup_GetHandlerGroup P sub w)) ! length (groups w)) =
           basePath (groups w ! P) @ sub"
proof -
  note e = GetHandlerGroup_eq [OF wf P, of sub]
  from wf have sl: "\<And>g. g < length (groups w) \<Longrightarrow> wf_slice w (middlewareList (groups w ! g))"
    and ne: "\<And>g g'. g < length (groups w) \<Longrightarrow> g' < length (groups w) \<Longrightarrow> g \<noteq> g' \<Longrightarrow>
       slice_ptr (middlewareList (groups w ! g)) \<noteq> slice_ptr (middlewareList (groups w ! g'))"
    by (simp_all add: wf_World_iff)
  have lt: "slice_ptr (middlewareList (groups w ! g)) < length (arrays w)"
    if "g < length (groups w)" for g
    using sl [OF that] by (simp add: wf_slice_def)
  show "fst (HandlerGroup_GetHandlerGroup P sub w) = length (groups w)"
    and "length (groups (snd (HandlerGroup_GetHandlerGroup P sub w))) = Suc (length (groups w))"
    and "server (snd (HandlerGroup_GetHandlerGroup P sub w)) = server w"
    and "basePath (groups (snd (HandlerGroup_GetHandlerGroup P sub w)) ! length (groups w)) =
           basePath (groups w ! P) @ sub"
    by (simp_all add: e)
  show "g < length (groups w) \<Longrightarrow>
           groups (snd (HandlerGroup_GetHandlerGroup P sub w)) ! g = groups w ! g"
    by (simp add: e nth_append)
  show "g < length (groups w) \<Longrightarrow>
           group_middleware (snd (HandlerGroup_GetHandlerGroup P sub w)) g = group_middleware w g"
    using lt [of g] by (simp add: e nth_append group_middleware_def slice_elems_def)
  show "group_middleware (snd (HandlerGroup_GetHandlerGroup P sub w)) (length (groups w)) =
           group_middleware w P"
    using group_middleware_length [OF sl [OF P]]
    by (simp add: e group_middleware_def [of "_\<lparr>arrays := _, groups := _\<rparr>"] slice_elems_def)
  show "wf_World (snd (HandlerGroup_GetHandlerGroup P sub w))"
  proof -
    let ?w' = "snd (HandlerGroup_GetHandlerGroup P sub w)"
    have a: "wf_slice ?w' (middlewareList (groups ?w' ! g))" if g: "g < Suc (length (groups w))" for g
    proof (cases "g = length (groups w)")
      case True
      then show ?thesis
        using group_middleware_length [OF sl [OF P]] by (simp add: e wf_slice_def)
    next
      case False
      with g have g': "g < length (groups w)" by simp
      with sl [OF g'] lt [OF g'] show ?thesis by (simp add: e wf_slice_def nth_append)
    qed
    have b: "slice_ptr (middlewareList (groups ?w' ! g)) \<noteq> slice_ptr (middlewareList (groups ?w' ! g'))"
      if "g < Suc (length (groups w))" "g' < Suc (length (groups w))" "g \<noteq> g'" for g g'
      using that ne [of g g'] lt [of g] lt [of g']
      by (cases "g = length (groups w)"; cases "g' = length (groups w)") (simp_all add: e nth_append)
    show ?thesis
      unfolding wf_World_iff using a b by (simp add: e)
  qed
qed

lemma Server_GetHandlerGroup_step:
  assumes wf: "wf_World w"
  shows "fst (Server_GetHandlerGroup base w) = length (groups w)"
    and "wf_World (snd (Server_GetHandlerGroup base w))"
    and "group_middleware (snd (Server_GetHandlerGroup base w)) (length (groups w)) = []"
    and "basePath (groups (snd (Server_GetHandlerGroup base w)) ! length (groups w)) = base"
    and "length (groups (snd (Server_GetHandlerGroup base w))) = Suc (length (groups w))"
proof -
  from wf have sl: "\<And>g. g < length (groups w) \<Longrightarrow> wf_slice w (middlewareList (groups w ! g))"
    and ne: "\<And>g g'. g < length (groups w) \<Longrightarrow> g' < length (groups w) \<Longrightarrow> g \<noteq> g' \<Longrightarrow>
       slice_ptr (middlewareList (groups w ! g)) \<noteq> slice_ptr (middlewareList (groups w ! g'))"
    by (simp_all add: wf_World_iff)
  have lt: "slice_ptr (middlewareList (groups w ! g)) < length (arrays w)"
    if "g < length (groups w)" for g
    using sl [OF that] by (simp add: wf_slice_def)
  have e: "Server_GetHandlerGroup base w =
     (length (groups w),
      w\<lparr>arrays := arrays w @ [[]],
        groups := groups w @
          [\<lparr>parent = None,
            middlewareList = \<lparr>slice_ptr = length (arrays w), slice_len = 0, slice_cap = 0\<rparr>,
            basePath = base\<rparr>]\<rparr>)"
    by (simp add: Server_GetHandlerGroup_def go_make_def Let_def)
  show "fst (Server_GetHandlerGroup base w) = length (groups w)"
    and "group_middleware (snd (Server_GetHandlerGroup base w)) (length (groups w)) = []"
    and "basePath (groups (snd (Server_GetHandlerGroup base w)) ! length (groups w)) = base"
    and "length (groups (snd (Server_GetHandlerGroup base w))) = Suc (length (groups w))"
    by (simp_all add: e group_middleware_def slice_elems_def)
  let ?w' = "snd (Server_GetHandlerGroup base w)"
  have a: "wf_slice ?w' (middlewareList (groups ?w' ! g))" if g: "g < Suc (length (groups w))" for g
  proof (cases "g = length (groups w)")
    case True
    then show ?thesis by (simp add: e wf_slice_def)
  next
    case False
    with g have g': "g < length (groups w)" by simp
    with sl [OF g'] lt [OF g'] show ?thesis by (simp add: e wf_slice_def nth_append)
  qed
  have b: "slice_ptr (middlewareList (groups ?w' ! g)) \<noteq> slice_ptr (middlewareList (groups ?w' ! g'))"
    if "g < Suc (length (groups w))" "g' < Suc (length (groups w))" "g \<noteq> g'" for g g'
    using that ne [of g g'] lt [of g] lt [of g']
    by (cases "g = length (groups w)"; cases "g' = length (groups w)") (simp_all add: e nth_append)
  show "wf_World ?w'"
    unfolding wf_World_iff using a b by (simp add: e)
qed

lemma AddMiddleware_calls_step:
  "wf_World w \<Longrightarrow> list_all (\<lambda>(hg, m). hg < length (groups w)) calls \<Longrightarrow>
     wf_World (AddMiddleware_calls go calls w) \<and>
     length (groups (AddMiddleware_calls go calls w)) = length (groups w) \<and>
     server (AddMiddleware_calls go calls w) = server w \<and>
     (\<forall>g < length (groups w).
        group_middleware (AddMiddleware_calls go calls w) g =
          group_middleware w g @ concat (map snd (filter (\<lambda>(hg, m). hg = g) calls)) \<and>
        basePath (groups (AddMiddleware_calls go calls w) ! g) = basePath (groups w ! g))"
proof (induction calls arbitrary: w)
  case Nil
  then show ?case by simp
next
  case (Cons x calls)
  obtain hg m where x: "x = (hg, m)" by (cases x)
  from Cons.prems x have hg: "hg < length (groups w)" by simp
  note st = AddMiddleware_step [OF Cons.prems(1) hg, where go = go and m = m]
  from Cons.prems(2) x st(2) have "list_all (\<lambda>(hg', m'). hg' < length (groups (HandlerGroup_AddMiddleware go hg m w))) calls"
    by simp
  from Cons.IH [OF st(1) this] show ?case
    using st x by auto
qed


lemma spec_effective_handler_append:
  "spec_effective_handler (xs @ ys) h = spec_effective_handler xs (spec_effective_handler ys h)"
  by (induction xs) simp_all

lemma middlewareHandler_loop_eq:
  assumes wf: "wf_slice w ml" and el: "slice_elems w ml = map Some ms"
  shows "n \<le> length ms \<Longrightarrow>
     middlewareHandler_loop w ml (int n - 1) h = Inr (spec_effective_handler (take n ms) h)"
proof (induction n arbitrary: h)
  case 0
  then show ?case by (simp add: middlewareHandler_loop.simps)
next
  case (Suc n)
  from wf el have len: "slice_len ml = length ms"
    by (metis length_map length_take min.absorb2 slice_elems_def wf_slice_def)
  from Suc.prems have n: "n < length ms" by simp
  from el n len wf have cell: "arrays w ! slice_ptr ml ! n = Some (ms ! n)"
    by (metis nth_map nth_take slice_elems_def)
  have "middlewareHandler_loop w ml (int (Suc n) - 1) h =
      middlewareHandler_loop w ml (int n - 1) ((ms ! n) h)"
    using n len cell
    by (subst middlewareHandler_loop.simps) (simp add: slice_index_def)
  also have "\<dots> = Inr (spec_effective_handler (take n ms) ((ms ! n) h))"
    using Suc.IH n by simp
  also have "spec_effective_handler (take n ms) ((ms ! n) h) = spec_effective_handler (take (Suc n) ms) h"
    using n by (simp add: take_Suc_conv_app_nth spec_effective_handler_append)
  finally show ?case .
qed

lemma middlewareHandler_eq:
  assumes wf: "wf_World w" and hg: "hg < length (groups w)"
    and ml: "group_middleware w hg = map Some ms"
  shows "middlewareHandler hg leaf w = Inr (spec_effective_handler ms leaf)"
proof -
  from wf hg have s: "wf_slice w (middlewareList (groups w ! hg))"
    by (simp add: wf_World_iff)
  from group_middleware_length [OF s] ml have len: "slice_len (middlewareList (groups w ! hg)) = length ms"
    by simp
  from ml have el: "slice_elems w (middlewareList (groups w ! hg)) = map Some ms"
    by (simp add: group_middleware_def)
  show ?thesis
    using middlewareHandler_loop_eq [OF s el, of "length ms" leaf]
    by (simp add: middlewareHandler_def Let_def len)
qed

lemma marker_chain_calls:
  "sink_calls (rl_b (Log (snd (spec_effective_handler (map marker names) handler_leaf c)))) =
     sink_calls (rl_b (Log c)) @ map (\<lambda>n. Call_Info (''enter '' @ n)) names @ [Call_Info ''leaf''] @
       map (\<lambda>n. Call_Info (''exit '' @ n)) (rev names)"
proof (induction names arbitrary: c)
  case Nil
  show ?case
    by (simp add: handler_leaf_def ContextResponse_Status_def rw_WriteHeader_def
          ContextResponse_Header_Set_def Info_calls)
next
  case (Cons n names)
  show ?case
    by (simp add: marker_def [of n] Let_def split_beta Cons.IH Info_calls)
qed

section \<open>Composition, derivation and registration\<close>

lemma wf_world_example: "wf_World world_example" "length (groups world_example) = 0"
  by (simp_all add: wf_World_def world_example_def)

lemma world_api_facts:
  "wf_World world_api" "length (groups world_api) = Suc 0"
  "group_middleware world_api 0 = map Some [marker ''auth'', marker ''timing'']"
  "basePath (groups world_api ! 0) = ''/api''"
proof -
  note s = Server_GetHandlerGroup_step [OF wf_world_example(1), of "''/api''"]
  have z: "0 < length (groups (snd (Server_GetHandlerGroup ''/api'' world_example)))"
    using s(5) by (simp add: wf_world_example)
  note a = AddMiddleware_step [OF s(2) z, where go = go_default
      and m = "[Some (marker ''auth''), Some (marker ''timing'')]"]
  show "wf_World world_api" "length (groups world_api) = Suc 0"
    "group_middleware world_api 0 = map Some [marker ''auth'', marker ''timing'']"
    "basePath (groups world_api ! 0) = ''/api''"
    using a(1) a(2) a(4) [of 0] a(5) [of 0] s z
    by (simp_all add: world_api_def wf_world_example)
qed

lemma world_v1_facts:
  "wf_World world_v1" "length (groups world_v1) = 2"
  "group_middleware world_v1 0 = map Some [marker ''auth'', marker ''timing'']"
  "group_middleware world_v1 (Suc 0) = map Some [marker ''auth'', marker ''timing'']"
  "basePath (groups world_v1 ! Suc 0) = ''/api/v1''"
  "basePath (groups world_v1 ! 0) = ''/api''"
proof -
  have z: "0 < length (groups world_api)" by (simp add: world_api_facts)
  note s = GetHandlerGroup_step [OF world_api_facts(1) z, where sub = "''/v1''"]
  show "wf_World world_v1" "length (groups world_v1) = 2"
    "group_middleware world_v1 0 = map Some [marker ''auth'', marker ''timing'']"
    "group_middleware world_v1 (Suc 0) = map Some [marker ''auth'', marker ''timing'']"
    "basePath (groups world_v1 ! Suc 0) = ''/api/v1''"
    "basePath (groups world_v1 ! 0) = ''/api''"
    using s(2) s(3) s(5) [of 0] s(6) [of 0] s(7) s(8)
    by (simp_all add: world_v1_def world_api_facts)
qed

lemma world_v1_limited_facts:
  "wf_World world_v1_limited" "length (groups world_v1_limited) = 2"
  "group_middleware world_v1_limited (Suc 0) = map Some [marker ''auth'', marker ''timing'', marker ''rateLimit'']"
  "basePath (groups world_v1_limited ! Suc 0) = ''/api/v1''"
proof -
  have z: "Suc 0 < length (groups world_v1)" by (simp add: world_v1_facts)
  note a = AddMiddleware_step [OF world_v1_facts(1) z, where go = go_default
      and m = "[Some (marker ''rateLimit'')]"]
  show "wf_World world_v1_limited" "length (groups world_v1_limited) = 2"
  "group_middleware world_v1_limited (Suc 0) = map Some [marker ''auth'', marker ''timing'', marker ''rateLimit'']"
  "basePath (groups world_v1_limited ! Suc 0) = ''/api/v1''"
    using a(1) a(2) a(4) [of "Suc 0"] a(5) [of "Suc 0"]
    by (simp_all add: world_v1_limited_def world_v1_facts)
qed

text \<open>
  Claim C1. Let the middleware list of a group hold the middleware \<^verbatim>\<open>[m0, ..., mk]\<close>, in
  the order of their registration (none of them nil). Then for every leaf handler \<^verbatim>\<open>L\<close>
  the handler that \<^verbatim>\<open>middlewareHandler\<close> builds, which is the one that a route registration
  wraps and hands to the router, is \<^verbatim>\<open>m0(m1(...(mk(L))))\<close>: the leaf itself for the empty
  list, and \<^verbatim>\<open>m0\<close> applied to the composition of the rest otherwise, so that the
  middleware registered first is the outermost. Middleware registered after that by
  \<^verbatim>\<open>AddMiddleware\<close> come last in the list and innermost in the handler. With middleware
  that log when they are entered and left, the handler logs the entries in the order of
  registration, then the leaf, then the exits in the reverse order.
\<close>

theorem C1_effective_handler:
  assumes wf: "wf_World (world app)" and hg: "hg < length (groups (world app))"
    and ml: "group_middleware (world app) hg = map Some ms"
  shows "middlewareHandler hg leaf (world app) = Inr (spec_effective_handler ms leaf)
     \<and> HandlerGroup_GET go hg path' leaf app =
         Inr (router_Handle ''GET'' (basePath (groups (world app) ! hg) @ path')
                (handlerShim_closure go (spec_effective_handler ms leaf)) app)
     \<and> (ms = [] \<longrightarrow> middlewareHandler hg leaf (world app) = Inr leaf)
     \<and> (\<forall>m0 rest. ms = m0 # rest \<longrightarrow>
           middlewareHandler hg leaf (world app) = Inr (m0 (spec_effective_handler rest leaf)))
     \<and> (\<forall>more.
           group_middleware (HandlerGroup_AddMiddleware go hg (map Some more) (world app)) hg =
             map Some (ms @ more)
         \<and> middlewareHandler hg leaf (HandlerGroup_AddMiddleware go hg (map Some more) (world app)) =
             Inr (spec_effective_handler (ms @ more) leaf))
     \<and> (\<forall>names. ms = map marker names \<longrightarrow>
           (\<exists>h. middlewareHandler hg handler_leaf (world app) = Inr h \<and>
                sink_calls (rl_b (Log (snd (h c)))) =
                  sink_calls (rl_b (Log c)) @ map (\<lambda>n. Call_Info (''enter '' @ n)) names @
                    [Call_Info ''leaf''] @ map (\<lambda>n. Call_Info (''exit '' @ n)) (rev names)))"
proof -
  note e = middlewareHandler_eq [OF wf hg ml]
  have later: "group_middleware (HandlerGroup_AddMiddleware go hg (map Some more) (world app)) hg =
             map Some (ms @ more)
         \<and> middlewareHandler hg leaf (HandlerGroup_AddMiddleware go hg (map Some more) (world app)) =
             Inr (spec_effective_handler (ms @ more) leaf)" for more
  proof -
    note a = AddMiddleware_step [OF wf hg, where go = go and m = "map Some more"]
    from a(4) [of hg] hg ml
    have el: "group_middleware (HandlerGroup_AddMiddleware go hg (map Some more) (world app)) hg =
        map Some (ms @ more)"
      by simp
    from a(2) hg
    have hg': "hg < length (groups (HandlerGroup_AddMiddleware go hg (map Some more) (world app)))"
      by simp
    from middlewareHandler_eq [OF a(1) hg' el, of leaf] el show ?thesis by simp
  qed
  have g: "HandlerGroup_GET go hg path' leaf app =
         Inr (router_Handle ''GET'' (basePath (groups (world app) ! hg) @ path')
                (handlerShim_closure go (spec_effective_handler ms leaf)) app)"
    by (simp add: HandlerGroup_GET_def HandlerGroup_register_def handlerShim_def e Let_def)
  show ?thesis
    using e [of leaf] e [of handler_leaf] g later by (auto simp: marker_chain_calls)
qed

theorem C1_witness:
  "(\<exists>h. middlewareHandler 1 handler_leaf world_v1_limited = Inr h \<and>
        sink_calls (rl_b (Log (snd (h (context_of writer_ok))))) =
          [Call_Info ''enter auth'', Call_Info ''enter timing'', Call_Info ''enter rateLimit'',
           Call_Info ''leaf'',
           Call_Info ''exit rateLimit'', Call_Info ''exit timing'', Call_Info ''exit auth''])
   \<and> middlewareHandler 1 handler_leaf world_v1_limited =
        Inr (marker ''auth'' (marker ''timing'' (marker ''rateLimit'' handler_leaf)))
   \<and> map route_path (router (projr (HandlerGroup_GET go_default 1 ''/items'' handler_leaf
        \<lparr>world = world_v1_limited, router = []\<rparr>))) = [''/api/v1/items'']"
proof -
  have z: "1 < length (groups (world \<lparr>world = world_v1_limited, router = []\<rparr>))"
    "wf_World (world \<lparr>world = world_v1_limited, router = []\<rparr>)"
    "group_middleware (world \<lparr>world = world_v1_limited, router = []\<rparr>) 1 =
       map Some [marker ''auth'', marker ''timing'', marker ''rateLimit'']"
    by (simp_all add: world_v1_limited_facts)
  note T = C1_effective_handler [OF z(2) z(1) z(3), of handler_leaf go_default "''/items''"
      "context_of writer_ok"]
  have m: "[marker ''auth'', marker ''timing'', marker ''rateLimit''] =
      map marker [''auth'', ''timing'', ''rateLimit'']" by simp
  from T m have a: "\<exists>h. middlewareHandler 1 handler_leaf world_v1_limited = Inr h \<and>
        sink_calls (rl_b (Log (snd (h (context_of writer_ok))))) =
          sink_calls (rl_b (Log (context_of writer_ok))) @
          map (\<lambda>n. Call_Info (''enter '' @ n)) [''auth'', ''timing'', ''rateLimit''] @
          [Call_Info ''leaf''] @ map (\<lambda>n. Call_Info (''exit '' @ n)) (rev [''auth'', ''timing'', ''rateLimit''])"
    by (metis select_convs(1))
  from T have b: "middlewareHandler 1 handler_leaf world_v1_limited =
        Inr (marker ''auth'' (marker ''timing'' (marker ''rateLimit'' handler_leaf)))"
    by simp
  from T have c: "map route_path (router (projr (HandlerGroup_GET go_default 1 ''/items'' handler_leaf
        \<lparr>world = world_v1_limited, router = []\<rparr>))) = [''/api/v1/items'']"
    by (simp add: router_Handle_def world_v1_limited_facts)
  from a have a': "\<exists>h. middlewareHandler 1 handler_leaf world_v1_limited = Inr h \<and>
        sink_calls (rl_b (Log (snd (h (context_of writer_ok))))) =
          [Call_Info ''enter auth'', Call_Info ''enter timing'', Call_Info ''enter rateLimit'',
           Call_Info ''leaf'',
           Call_Info ''exit rateLimit'', Call_Info ''exit timing'', Call_Info ''exit auth'']"
    by (simp add: context_of_writer_ok)
  from a' b c show ?thesis by blast
qed


lemma world_api_eq:
  "world_api =
     \<lparr>server = \<lparr>NewRequestLogger = (\<lambda>c. sink_tagging)\<rparr>,
      groups = [\<lparr>parent = None,
                 middlewareList = \<lparr>slice_ptr = 1, slice_len = 2, slice_cap = 4\<rparr>,
                 basePath = ''/api''\<rparr>],
      arrays = [[], [Some (marker ''auth''), Some (marker ''timing''), None, None]]\<rparr>"
  by (simp add: world_api_def world_example_def Server_GetHandlerGroup_def go_make_def
        HandlerGroup_AddMiddleware_def go_append_def go_default_def slice_elems_def Let_def
        numeral_2_eq_2)

lemma world_v1_eq:
  "world_v1 =
     \<lparr>server = \<lparr>NewRequestLogger = (\<lambda>c. sink_tagging)\<rparr>,
      groups = [\<lparr>parent = None,
                 middlewareList = \<lparr>slice_ptr = 1, slice_len = 2, slice_cap = 4\<rparr>,
                 basePath = ''/api''\<rparr>,
                \<lparr>parent = Some 0,
                 middlewareList = \<lparr>slice_ptr = 2, slice_len = 2, slice_cap = 2\<rparr>,
                 basePath = ''/api/v1''\<rparr>],
      arrays = [[], [Some (marker ''auth''), Some (marker ''timing''), None, None],
                [Some (marker ''auth''), Some (marker ''timing'')]]\<rparr>"
  by (simp add: world_v1_def world_api_eq HandlerGroup_GetHandlerGroup_def go_make_def go_copy_def
        Let_def numeral_2_eq_2)

lemma world_v1_late_eq:
  "world_v1_late =
     \<lparr>server = \<lparr>NewRequestLogger = (\<lambda>c. sink_tagging)\<rparr>,
      groups = [\<lparr>parent = None,
                 middlewareList = \<lparr>slice_ptr = 1, slice_len = 3, slice_cap = 4\<rparr>,
                 basePath = ''/api''\<rparr>,
                \<lparr>parent = Some 0,
                 middlewareList = \<lparr>slice_ptr = 2, slice_len = 2, slice_cap = 2\<rparr>,
                 basePath = ''/api/v1''\<rparr>],
      arrays = [[], [Some (marker ''auth''), Some (marker ''timing''), Some (marker ''late''), None],
                [Some (marker ''auth''), Some (marker ''timing'')]]\<rparr>"
  by (simp add: world_v1_late_def world_v1_eq HandlerGroup_AddMiddleware_def go_append_def
        go_default_def slice_elems_def Let_def numeral_2_eq_2 numeral_3_eq_3)

lemma world_v1_limited_eq:
  "world_v1_limited =
     \<lparr>server = \<lparr>NewRequestLogger = (\<lambda>c. sink_tagging)\<rparr>,
      groups = [\<lparr>parent = None,
                 middlewareList = \<lparr>slice_ptr = 1, slice_len = 2, slice_cap = 4\<rparr>,
                 basePath = ''/api''\<rparr>,
                \<lparr>parent = Some 0,
                 middlewareList = \<lparr>slice_ptr = 3, slice_len = 3, slice_cap = 6\<rparr>,
                 basePath = ''/api/v1''\<rparr>],
      arrays = [[], [Some (marker ''auth''), Some (marker ''timing''), None, None],
                [Some (marker ''auth''), Some (marker ''timing'')],
                [Some (marker ''auth''), Some (marker ''timing''), Some (marker ''rateLimit''),
                 None, None, None]]\<rparr>"
  by (simp add: world_v1_limited_def world_v1_eq HandlerGroup_AddMiddleware_def go_append_def
        go_default_def slice_elems_def Let_def numeral_2_eq_2 numeral_3_eq_3)


text \<open>
  Claim C3. In a well-formed world, let \<open>C\<close> be the group that \<^verbatim>\<open>P.GetHandlerGroup(sub)\<close>
  returns. Then \<open>C\<close> is a new group; its prefix is the prefix of \<open>P\<close> followed by \<open>sub\<close>;
  its middleware list has the elements of the list of \<open>P\<close>, which keeps its own; the two
  lists lie in different arrays; and after \<^verbatim>\<open>AddMiddleware\<close> on \<open>P\<close> the list of \<open>C\<close> is
  what it was and the list of \<open>P\<close> has grown by the arguments, and the other way round.
  The same holds after any sequence of \<^verbatim>\<open>AddMiddleware\<close> calls on groups of the world: each
  of the two lists is its list at the derivation followed by what was added to that
  group, in order.
\<close>

theorem C3_child_group_copies:
  assumes wf: "wf_World w" and P: "P < length (groups w)"
  shows "fst (HandlerGroup_GetHandlerGroup P sub w) = length (groups w)
     \<and> fst (HandlerGroup_GetHandlerGroup P sub w) \<noteq> P
     \<and> basePath (groups (snd (HandlerGroup_GetHandlerGroup P sub w)) !
           fst (HandlerGroup_GetHandlerGroup P sub w)) = basePath (groups w ! P) @ sub
     \<and> group_middleware (snd (HandlerGroup_GetHandlerGroup P sub w))
           (fst (HandlerGroup_GetHandlerGroup P sub w)) = group_middleware w P
     \<and> group_middleware (snd (HandlerGroup_GetHandlerGroup P sub w)) P = group_middleware w P
     \<and> slice_ptr (middlewareList (groups (snd (HandlerGroup_GetHandlerGroup P sub w)) !
           fst (HandlerGroup_GetHandlerGroup P sub w))) \<noteq>
         slice_ptr (middlewareList (groups (snd (HandlerGroup_GetHandlerGroup P sub w)) ! P))
     \<and> wf_World (snd (HandlerGroup_GetHandlerGroup P sub w))
     \<and> (\<forall>m. group_middleware (HandlerGroup_AddMiddleware go P m
                 (snd (HandlerGroup_GetHandlerGroup P sub w)))
               (fst (HandlerGroup_GetHandlerGroup P sub w)) = group_middleware w P
            \<and> group_middleware (HandlerGroup_AddMiddleware go P m
                 (snd (HandlerGroup_GetHandlerGroup P sub w))) P = group_middleware w P @ m
            \<and> group_middleware (HandlerGroup_AddMiddleware go
                 (fst (HandlerGroup_GetHandlerGroup P sub w)) m
                 (snd (HandlerGroup_GetHandlerGroup P sub w))) P = group_middleware w P
            \<and> group_middleware (HandlerGroup_AddMiddleware go
                 (fst (HandlerGroup_GetHandlerGroup P sub w)) m
                 (snd (HandlerGroup_GetHandlerGroup P sub w)))
               (fst (HandlerGroup_GetHandlerGroup P sub w)) = group_middleware w P @ m)
     \<and> (\<forall>calls. list_all (\<lambda>(hg, m). hg < Suc (length (groups w))) calls \<longrightarrow>
           group_middleware (AddMiddleware_calls go calls (snd (HandlerGroup_GetHandlerGroup P sub w)))
               (fst (HandlerGroup_GetHandlerGroup P sub w)) =
             group_middleware w P @
               concat (map snd (filter (\<lambda>(hg, m). hg = fst (HandlerGroup_GetHandlerGroup P sub w)) calls))
         \<and> group_middleware (AddMiddleware_calls go calls (snd (HandlerGroup_GetHandlerGroup P sub w))) P =
             group_middleware w P @ concat (map snd (filter (\<lambda>(hg, m). hg = P) calls)))"
proof -
  let ?C = "fst (HandlerGroup_GetHandlerGroup P sub w)"
  let ?w1 = "snd (HandlerGroup_GetHandlerGroup P sub w)"
  note s = GetHandlerGroup_step [OF wf P, where sub = sub]
  have C: "?C = length (groups w)" by (rule s(1))
  have P1: "P < length (groups ?w1)" "?C < length (groups ?w1)" "?C \<noteq> P"
    using P s(2) C by simp_all
  have ptr: "slice_ptr (middlewareList (groups ?w1 ! ?C)) \<noteq> slice_ptr (middlewareList (groups ?w1 ! P))"
    using s(3) P1 by (simp add: wf_World_iff)
  have one: "group_middleware (HandlerGroup_AddMiddleware go P m ?w1) ?C = group_middleware w P
      \<and> group_middleware (HandlerGroup_AddMiddleware go P m ?w1) P = group_middleware w P @ m
      \<and> group_middleware (HandlerGroup_AddMiddleware go ?C m ?w1) P = group_middleware w P
      \<and> group_middleware (HandlerGroup_AddMiddleware go ?C m ?w1) ?C = group_middleware w P @ m" for m
    using AddMiddleware_step(4) [OF s(3) P1(1), where go = go and m = m and g = ?C]
      AddMiddleware_step(4) [OF s(3) P1(1), where go = go and m = m and g = P]
      AddMiddleware_step(4) [OF s(3) P1(2), where go = go and m = m and g = P]
      AddMiddleware_step(4) [OF s(3) P1(2), where go = go and m = m and g = ?C]
      P1 s(5) [of P] s(7) P C
    by simp
  have many: "group_middleware (AddMiddleware_calls go calls ?w1) ?C =
             group_middleware w P @ concat (map snd (filter (\<lambda>(hg, m). hg = ?C) calls))
         \<and> group_middleware (AddMiddleware_calls go calls ?w1) P =
             group_middleware w P @ concat (map snd (filter (\<lambda>(hg, m). hg = P) calls))"
    if "list_all (\<lambda>(hg, m). hg < Suc (length (groups w))) calls" for calls
  proof -
    from that s(2) have "list_all (\<lambda>(hg, m). hg < length (groups ?w1)) calls" by simp
    from AddMiddleware_calls_step [OF s(3) this, of go] P1 s(5) [of P] s(7) P C
    show ?thesis by simp
  qed
  show ?thesis
    using C P1(3) s(8) s(7) s(5) [OF P] ptr s(3) one many by (simp add: C)
qed


theorem C3_child_group_witness:
  "fst (HandlerGroup_GetHandlerGroup 0 ''/v1'' world_api) = 1
   \<and> basePath (groups world_v1 ! 1) = ''/api/v1''
   \<and> group_middleware world_v1 1 = [Some (marker ''auth''), Some (marker ''timing'')]
   \<and> group_middleware world_v1_late 1 = [Some (marker ''auth''), Some (marker ''timing'')]
   \<and> group_middleware world_v1_late 0 =
        [Some (marker ''auth''), Some (marker ''timing''), Some (marker ''late'')]
   \<and> slice_ptr (middlewareList (groups world_v1_late ! 0)) =
        slice_ptr (middlewareList (groups world_v1 ! 0))
   \<and> group_middleware world_v1_limited 0 = [Some (marker ''auth''), Some (marker ''timing'')]
   \<and> group_middleware world_v1_limited 1 =
        [Some (marker ''auth''), Some (marker ''timing''), Some (marker ''rateLimit'')]"
proof -
  have z: "0 < length (groups world_api)" by (simp add: world_api_facts)
  note T = C3_child_group_copies [OF world_api_facts(1) z, where sub = "''/v1''" and go = go_default]
  note T1 = T [THEN conjunct1]
  note T3 = T [THEN conjunct2, THEN conjunct2, THEN conjunct1]
  note T4 = T [THEN conjunct2, THEN conjunct2, THEN conjunct2, THEN conjunct1]
  note T8 = T [THEN conjunct2, THEN conjunct2, THEN conjunct2, THEN conjunct2, THEN conjunct2,
      THEN conjunct2, THEN conjunct2, THEN conjunct1, THEN spec]
  have a: "fst (HandlerGroup_GetHandlerGroup 0 ''/v1'' world_api) = 1"
    using T1 by (simp only: world_api_facts(2) One_nat_def)
  have g0: "group_middleware world_api 0 = [Some (marker ''auth''), Some (marker ''timing'')]"
    using world_api_facts(3) by simp
  have b1: "basePath (groups world_v1 ! 1) = ''/api/v1''"
    using T3 unfolding a world_v1_def [symmetric] by (simp only: world_api_facts(4) append.simps)
  have b2: "group_middleware world_v1 1 = [Some (marker ''auth''), Some (marker ''timing'')]"
    using T4 unfolding a world_v1_def [symmetric] by (simp only: g0)
  have c1: "group_middleware world_v1_late 1 = [Some (marker ''auth''), Some (marker ''timing'')]"
    and c2: "group_middleware world_v1_late 0 =
        [Some (marker ''auth''), Some (marker ''timing''), Some (marker ''late'')]"
    using T8 [of "[Some (marker ''late'')]"] unfolding a world_v1_def [symmetric] world_v1_late_def [symmetric]
    by (simp_all only: g0 append.simps)
  have c3: "group_middleware world_v1_limited 0 = [Some (marker ''auth''), Some (marker ''timing'')]"
    and c4: "group_middleware world_v1_limited 1 =
        [Some (marker ''auth''), Some (marker ''timing''), Some (marker ''rateLimit'')]"
    using T8 [of "[Some (marker ''rateLimit'')]"] unfolding a world_v1_def [symmetric] world_v1_limited_def [symmetric]
    by (simp_all only: g0 append.simps)
  have d: "slice_ptr (middlewareList (groups world_v1_late ! 0)) =
        slice_ptr (middlewareList (groups world_v1 ! 0))"
    by (simp add: world_v1_late_eq world_v1_eq)
  from a b1 b2 c1 c2 c3 c4 d show ?thesis by (intro conjI)
qed



lemma handlerShim_closure_server:
  "server w' = server w \<Longrightarrow> handlerShim_closure go h w' rw req p = handlerShim_closure go h w rw req p"
  by (simp add: handlerShim_closure_def)

text \<open>
  Claim C6. In a well-formed world, let the list of a group hold \<^verbatim>\<open>[m0, ..., mk]\<close> when
  \<^verbatim>\<open>GET(path, leaf)\<close> is called on it. The call hands to the router, for the method
  \<^verbatim>\<open>GET\<close> and the prefixed path, the handle that wraps \<^verbatim>\<open>m0(m1(...(mk(leaf))))\<close>. After any
  sequence of later \<^verbatim>\<open>AddMiddleware\<close> calls the group's list has grown by what was added
  to it, and the stored handle, run in the later world on any request, does what it does
  in the world of the registration. The six other registration methods store the same
  handle under their own method.
\<close>

theorem C6_registration_snapshots_chain:
  assumes wf: "wf_World (world app)" and hg: "hg < length (groups (world app))"
    and ml: "group_middleware (world app) hg = map Some ms"
  shows "HandlerGroup_GET go hg path' leaf app =
       Inr (app\<lparr>router := router app @
              [\<lparr>route_method = ''GET'',
                route_path = basePath (groups (world app) ! hg) @ path',
                route_handle = handlerShim_closure go (spec_effective_handler ms leaf)\<rparr>]\<rparr>)
     \<and> (\<forall>calls. list_all (\<lambda>(g, m). g < length (groups (world app))) calls \<longrightarrow>
          (\<forall>rw req p.
              handlerShim_closure go (spec_effective_handler ms leaf)
                (AddMiddleware_calls go calls (world app)) rw req p =
              handlerShim_closure go (spec_effective_handler ms leaf) (world app) rw req p)
        \<and> group_middleware (AddMiddleware_calls go calls (world app)) hg =
            map Some ms @ concat (map snd (filter (\<lambda>(g, m). g = hg) calls)))
     \<and> map (\<lambda>register. register go hg path' leaf app)
           [HandlerGroup_DELETE, HandlerGroup_HEAD, HandlerGroup_OPTIONS, HandlerGroup_PATCH,
            HandlerGroup_POST, HandlerGroup_PUT] =
         map (\<lambda>method. Inr (app\<lparr>router := router app @
              [\<lparr>route_method = method,
                route_path = basePath (groups (world app) ! hg) @ path',
                route_handle = handlerShim_closure go (spec_effective_handler ms leaf)\<rparr>]\<rparr>))
           [''DELETE'', ''HEAD'', ''OPTIONS'', ''PATCH'', ''POST'', ''PUT'']"
proof -
  note e = middlewareHandler_eq [OF wf hg ml]
  have r: "HandlerGroup_register meth go hg path' leaf app =
       Inr (app\<lparr>router := router app @
              [\<lparr>route_method = meth,
                route_path = basePath (groups (world app) ! hg) @ path',
                route_handle = handlerShim_closure go (spec_effective_handler ms leaf)\<rparr>]\<rparr>)" for meth
    by (simp add: HandlerGroup_register_def handlerShim_def e Let_def router_Handle_def)
  have others: "map (\<lambda>register. register go hg path' leaf app)
           [HandlerGroup_DELETE, HandlerGroup_HEAD, HandlerGroup_OPTIONS, HandlerGroup_PATCH,
            HandlerGroup_POST, HandlerGroup_PUT] =
         map (\<lambda>method. Inr (app\<lparr>router := router app @
              [\<lparr>route_method = method,
                route_path = basePath (groups (world app) ! hg) @ path',
                route_handle = handlerShim_closure go (spec_effective_handler ms leaf)\<rparr>]\<rparr>))
           [''DELETE'', ''HEAD'', ''OPTIONS'', ''PATCH'', ''POST'', ''PUT'']"
    by (simp add: r HandlerGroup_DELETE_def HandlerGroup_HEAD_def HandlerGroup_OPTIONS_def
          HandlerGroup_PATCH_def HandlerGroup_POST_def HandlerGroup_PUT_def)
  have g: "HandlerGroup_GET go hg path' leaf app =
       Inr (app\<lparr>router := router app @
              [\<lparr>route_method = ''GET'',
                route_path = basePath (groups (world app) ! hg) @ path',
                route_handle = handlerShim_closure go (spec_effective_handler ms leaf)\<rparr>]\<rparr>)"
    by (simp add: HandlerGroup_GET_def HandlerGroup_register_def handlerShim_def e Let_def
          router_Handle_def)
  have later: "(\<forall>rw req p.
              handlerShim_closure go (spec_effective_handler ms leaf)
                (AddMiddleware_calls go calls (world app)) rw req p =
              handlerShim_closure go (spec_effective_handler ms leaf) (world app) rw req p)
        \<and> group_middleware (AddMiddleware_calls go calls (world app)) hg =
            map Some ms @ concat (map snd (filter (\<lambda>(g, m). g = hg) calls))"
    if "list_all (\<lambda>(g, m). g < length (groups (world app))) calls" for calls
  proof -
    from AddMiddleware_calls_step [OF wf that, of go]
    have s: "server (AddMiddleware_calls go calls (world app)) = server (world app)"
      and m: "group_middleware (AddMiddleware_calls go calls (world app)) hg =
          group_middleware (world app) hg @ concat (map snd (filter (\<lambda>(g, m). g = hg) calls))"
      using hg by simp_all
    show ?thesis
      using handlerShim_closure_server [OF s] m ml by simp
  qed
  show ?thesis using g later others by blast
qed

lemma marker_chain_status:
  "statusCode (Response_rw (snd (spec_effective_handler (map marker names) handler_leaf c))) = 204"
proof (induction names arbitrary: c)
  case Nil
  show ?case
    by (simp add: handler_leaf_def ContextResponse_Status_def rw_WriteHeader_def
          ContextResponse_Header_Set_def loggingResponseWriter_WriteHeader_def Let_def)
next
  case (Cons n names)
  show ?case
    by (simp add: marker_def [of n] Let_def split_beta Cons.IH)
qed

lemma marker_chain_result:
  "fst (spec_effective_handler (map marker names) handler_leaf c) = None"
proof (induction names arbitrary: c)
  case Nil
  show ?case by (simp add: handler_leaf_def ContextResponse_Status_def)
next
  case (Cons n names)
  show ?case
    by (simp add: marker_def [of n] Let_def split_beta Cons.IH)
qed

theorem C6_registration_witness:
  "router (projr (HandlerGroup_GET go_default 0 ''/items'' handler_leaf
       \<lparr>world = world_v1, router = []\<rparr>)) =
     [\<lparr>route_method = ''GET'', route_path = ''/api/items'',
       route_handle = handlerShim_closure go_default (marker ''auth'' (marker ''timing'' handler_leaf))\<rparr>]
   \<and> group_middleware world_v1_late 0 =
        [Some (marker ''auth''), Some (marker ''timing''), Some (marker ''late'')]
   \<and> sink_calls (rl_b (Log (handlerShim_closure go_default
          (marker ''auth'' (marker ''timing'' handler_leaf)) world_v1_late writer_ok request_get []))) =
       [Call_Info ''enter auth'', Call_Info ''enter timing'', Call_Info ''leaf'',
        Call_Info ''exit timing'', Call_Info ''exit auth'', Call_WriteLogs]
   \<and> middlewareHandler 0 handler_leaf world_v1_late =
        Inr (marker ''auth'' (marker ''timing'' (marker ''late'' handler_leaf)))"
proof -
  let ?app = "\<lparr>world = world_v1, router = []\<rparr>"
  let ?h = "marker ''auth'' (marker ''timing'' handler_leaf)"
  have z: "wf_World (world ?app)" "0 < length (groups (world ?app))"
    "group_middleware (world ?app) 0 = map Some [marker ''auth'', marker ''timing'']"
    by (simp_all add: world_v1_facts)
  note T = C6_registration_snapshots_chain [OF z, of go_default "''/items''" handler_leaf]
  note T1 = T [THEN conjunct1]
  note T2 = T [THEN conjunct2, THEN conjunct1, THEN spec, of "[(0, [Some (marker ''late'')])]"]
  have late: "AddMiddleware_calls go_default [(0, [Some (marker ''late'')])] (world ?app) = world_v1_late"
    by (simp add: world_v1_late_def)
  have valid: "list_all (\<lambda>(g, m). g < length (groups (world ?app))) [(0, [Some (marker ''late'')])]"
    by (simp add: world_v1_facts)
  have a: "router (projr (HandlerGroup_GET go_default 0 ''/items'' handler_leaf ?app)) =
     [\<lparr>route_method = ''GET'', route_path = ''/api/items'', route_handle = handlerShim_closure go_default ?h\<rparr>]"
    using T1 by (simp add: world_v1_facts)
  from T2 valid have b: "group_middleware world_v1_late 0 =
        [Some (marker ''auth''), Some (marker ''timing''), Some (marker ''late'')]"
    unfolding late by simp
  from T2 valid have same: "handlerShim_closure go_default ?h world_v1_late writer_ok request_get [] =
      handlerShim_closure go_default ?h world_v1 writer_ok request_get []"
    unfolding late by simp
  have rc: "request_Context world_v1 writer_ok request_get [] = context_of writer_ok"
    by (simp add: request_Context_def world_v1_eq context_of_def new_loggingResponseWriter_def)
  have h: "?h = spec_effective_handler (map marker [''auth'', ''timing'']) handler_leaf"
    by simp
  have run: "?h (request_Context world_v1 writer_ok request_get []) =
      (fst (?h (context_of writer_ok)), snd (?h (context_of writer_ok)))"
    by (simp add: rc)
  have he: "fst (?h (context_of writer_ok)) = None"
    using marker_chain_result [of "[''auth'', ''timing'']" "context_of writer_ok"] by simp
  have hs: "statusCode (Response_rw (snd (?h (context_of writer_ok)))) = 204"
    using marker_chain_status [of "[''auth'', ''timing'']" "context_of writer_ok"] by simp
  have hc: "sink_calls (rl_b (Log (snd (?h (context_of writer_ok))))) =
       [Call_Info ''enter auth'', Call_Info ''enter timing'', Call_Info ''leaf'',
        Call_Info ''exit timing'', Call_Info ''exit auth'']"
    using marker_chain_calls [of "[''auth'', ''timing'']" "context_of writer_ok"]
    by (simp add: context_of_writer_ok)
  have c: "sink_calls (rl_b (Log (handlerShim_closure go_default ?h world_v1_late writer_ok request_get []))) =
       [Call_Info ''enter auth'', Call_Info ''enter timing'', Call_Info ''leaf'',
        Call_Info ''exit timing'', Call_Info ''exit auth'', Call_WriteLogs]"
    unfolding same
    using lifecycle_calls(1) [of ?h world_v1 writer_ok request_get "[]" _ _ go_default, OF run]
    by (simp add: he hs hc)
  have wl: "wf_World world_v1_late"
    using AddMiddleware_step(1) [OF world_v1_facts(1), of 0 go_default "[Some (marker ''late'')]"]
    by (simp add: world_v1_late_def world_v1_facts)
  have gl: "0 < length (groups world_v1_late)"
    by (simp add: world_v1_late_eq)
  have bl: "group_middleware world_v1_late 0 = map Some [marker ''auth'', marker ''timing'', marker ''late'']"
    using b by simp
  have d: "middlewareHandler 0 handler_leaf world_v1_late =
        Inr (marker ''auth'' (marker ''timing'' (marker ''late'' handler_leaf)))"
    using middlewareHandler_eq [OF wl gl bl, of handler_leaf] by simp
  from a b c d show ?thesis by (intro conjI)
qed

end
